theory Spec2Isabelle
  imports Main
begin

section \<open>Python values, dictionaries and exceptions\<close>

text \<open>
  The values that occur: scalars, plain dictionaries (instances of \<^verbatim>\<open>dict\<close>), mappings
  that are not instances of \<^verbatim>\<open>dict\<close> (a \<^verbatim>\<open>collections.UserDict\<close>, a
  \<^verbatim>\<open>types.MappingProxyType\<close>), attribute-bearing objects, callables (functions and
  classes) and other objects known by their name only (modules, instances of library
  classes, floats). A dictionary or mapping is an association list in insertion order
  with distinct keys; an attribute-bearing object is the list of its attributes.
\<close>

datatype pyval =
    PNone
  | PBool bool
  | PInt int
  | PStr string
  | PDict "(string \<times> pyval) list"
  | PMapping "(string \<times> pyval) list"
  | PObj "(string \<times> pyval) list"
  | PCallable string
  | POpaque string

type_synonym pydict = "(string \<times> pyval) list"

text \<open>\<^verbatim>\<open>k in d\<close>\<close>

definition dict_contains :: "pydict \<Rightarrow> string \<Rightarrow> bool" where
  "dict_contains d k = (map_of d k \<noteq> None)"

text \<open>\<^verbatim>\<open>d.get(k, default)\<close>\<close>

definition dict_get :: "pydict \<Rightarrow> string \<Rightarrow> pyval \<Rightarrow> pyval" where
  "dict_get d k dflt = (case map_of d k of None \<Rightarrow> dflt | Some v \<Rightarrow> v)"

text \<open>\<^verbatim>\<open>d[k] = v\<close>: an existing key keeps its position, a new key goes to the end.\<close>

fun dict_setitem :: "pydict \<Rightarrow> string \<Rightarrow> pyval \<Rightarrow> pydict" where
  "dict_setitem [] k v = [(k, v)]"
| "dict_setitem ((k', v') # d) k v =
     (if k' = k then (k, v) # d else (k', v') # dict_setitem d k v)"

text \<open>\<^verbatim>\<open>d.update(p)\<close>: every item of \<open>p\<close> is stored into \<open>d\<close>, in the order of \<open>p\<close>.\<close>

fun dict_update :: "pydict \<Rightarrow> pydict \<Rightarrow> pydict" where
  "dict_update d [] = d"
| "dict_update d ((k, v) # p) = dict_update (dict_setitem d k v) p"

text \<open>
  \<^verbatim>\<open>hasattr(o, name)\<close>, \<^verbatim>\<open>getattr(o, name, default)\<close> and \<^verbatim>\<open>setattr(o, name, v)\<close> on an
  attribute list.
\<close>

definition py_hasattr :: "pydict \<Rightarrow> string \<Rightarrow> bool" where
  "py_hasattr a k = (map_of a k \<noteq> None)"

definition py_getattr :: "pydict \<Rightarrow> string \<Rightarrow> pyval \<Rightarrow> pyval" where
  "py_getattr a k dflt = (case map_of a k of None \<Rightarrow> dflt | Some v \<Rightarrow> v)"

definition py_setattr :: "pydict \<Rightarrow> string \<Rightarrow> pyval \<Rightarrow> pydict" where
  "py_setattr a k v = dict_setitem a k v"

text \<open>
  The exceptions that occur. \<open>PermissionError\<close> and the other filesystem errors are
  subclasses of \<open>OSError\<close>, so one constructor carries them with their kind.
\<close>

datatype os_kind = PermissionDenied | ReadOnlyFilesystem | OtherIO

datatype pyexc =
    OSError os_kind
  | TypeError
  | ValueError
  | OtherException string

text \<open>\<^verbatim>\<open>except (OSError, PermissionError)\<close>\<close>

fun is_oserror :: "pyexc \<Rightarrow> bool" where
  "is_oserror (OSError _) = True"
| "is_oserror _ = False"

section \<open>The standard logging module, as far as the code uses it\<close>

text \<open>
  The numeric levels of the standard level table (\<^verbatim>\<open>logging._nameToLevel\<close>).
\<close>

definition name_to_level :: "string \<Rightarrow> int option" where
  "name_to_level = map_of
     [(''CRITICAL'', 50), (''FATAL'', 50), (''ERROR'', 40), (''WARN'', 30),
      (''WARNING'', 30), (''INFO'', 20), (''DEBUG'', 10), (''NOTSET'', 0)]"

definition logging_INFO :: int where
  "logging_INFO = 20"

definition logging_WARNING :: int where
  "logging_WARNING = 30"

definition logging_NOTSET :: int where
  "logging_NOTSET = 0"

text \<open>
  The attributes of the module object \<^verbatim>\<open>logging\<close>, which
  \<^verbatim>\<open>getattr(logging, name, ...)\<close> reads. This table holds the public names that every
  supported interpreter has: the level constants, and beside them functions, classes,
  objects and flags, which are not levels. What else the module object holds (private
  and special names, imported modules, names of one interpreter version, submodules
  once they are imported) depends on the interpreter and is part of the environment.
\<close>

definition logging_module :: "string \<Rightarrow> pyval option" where
  "logging_module = map_of
     [(''CRITICAL'', PInt 50),
      (''FATAL'', PInt 50),
      (''ERROR'', PInt 40),
      (''WARN'', PInt 30),
      (''WARNING'', PInt 30),
      (''INFO'', PInt 20),
      (''DEBUG'', PInt 10),
      (''NOTSET'', PInt 0),
      (''critical'', PCallable ''logging.critical''),
      (''fatal'', PCallable ''logging.fatal''),
      (''error'', PCallable ''logging.error''),
      (''exception'', PCallable ''logging.exception''),
      (''warning'', PCallable ''logging.warning''),
      (''info'', PCallable ''logging.info''),
      (''debug'', PCallable ''logging.debug''),
      (''log'', PCallable ''logging.log''),
      (''disable'', PCallable ''logging.disable''),
      (''shutdown'', PCallable ''logging.shutdown''),
      (''basicConfig'', PCallable ''logging.basicConfig''),
      (''captureWarnings'', PCallable ''logging.captureWarnings''),
      (''getLogger'', PCallable ''logging.getLogger''),
      (''getLoggerClass'', PCallable ''logging.getLoggerClass''),
      (''setLoggerClass'', PCallable ''logging.setLoggerClass''),
      (''getLevelName'', PCallable ''logging.getLevelName''),
      (''addLevelName'', PCallable ''logging.addLevelName''),
      (''getLogRecordFactory'', PCallable ''logging.getLogRecordFactory''),
      (''setLogRecordFactory'', PCallable ''logging.setLogRecordFactory''),
      (''makeLogRecord'', PCallable ''logging.makeLogRecord''),
      (''currentframe'', PCallable ''logging.currentframe''),
      (''Logger'', PCallable ''logging.Logger''),
      (''LoggerAdapter'', PCallable ''logging.LoggerAdapter''),
      (''RootLogger'', PCallable ''logging.RootLogger''),
      (''Manager'', PCallable ''logging.Manager''),
      (''PlaceHolder'', PCallable ''logging.PlaceHolder''),
      (''Handler'', PCallable ''logging.Handler''),
      (''StreamHandler'', PCallable ''logging.StreamHandler''),
      (''FileHandler'', PCallable ''logging.FileHandler''),
      (''NullHandler'', PCallable ''logging.NullHandler''),
      (''Formatter'', PCallable ''logging.Formatter''),
      (''BufferingFormatter'', PCallable ''logging.BufferingFormatter''),
      (''PercentStyle'', PCallable ''logging.PercentStyle''),
      (''StrFormatStyle'', PCallable ''logging.StrFormatStyle''),
      (''StringTemplateStyle'', PCallable ''logging.StringTemplateStyle''),
      (''Filter'', PCallable ''logging.Filter''),
      (''Filterer'', PCallable ''logging.Filterer''),
      (''LogRecord'', PCallable ''logging.LogRecord''),
      (''root'', POpaque ''RootLogger''),
      (''lastResort'', POpaque ''_StderrHandler''),
      (''BASIC_FORMAT'', PStr ''%(levelname)s:%(name)s:%(message)s''),
      (''raiseExceptions'', PBool True),
      (''logThreads'', PBool True),
      (''logProcesses'', PBool True),
      (''logMultiprocessing'', PBool True)]"

text \<open>
  \<^verbatim>\<open>logging._checkLevel\<close>, which every \<^verbatim>\<open>setLevel\<close> goes through: an integer (a bool is one)
  is taken as it is, a string must be a name of the level table (\<open>ValueError\<close>
  otherwise), anything else is a \<open>TypeError\<close>.
\<close>

fun check_level :: "pyval \<Rightarrow> pyexc + int" where
  "check_level (PInt n) = Inr n"
| "check_level (PBool b) = Inr (if b then 1 else 0)"
| "check_level (PStr s) =
     (case name_to_level s of None \<Rightarrow> Inl ValueError | Some n \<Rightarrow> Inr n)"
| "check_level _ = Inl TypeError"

text \<open>
  Handlers. \<open>FileHandler\<close> is a subclass of \<open>StreamHandler\<close>; the test
  \<^verbatim>\<open>isinstance(h, StreamHandler) and not isinstance(h, FileHandler)\<close> holds of
  \<open>ConsoleHandler\<close> only, \<^verbatim>\<open>isinstance(h, FileHandler)\<close> of \<open>FileHandler\<close> only.
  \<open>closed\<close> says that \<^verbatim>\<open>close()\<close> has been called on the handler (a file handler holds
  no stream any more then), and \<open>stream_closes\<close> counts how often the underlying file
  was closed: \<^verbatim>\<open>FileHandler.close\<close> closes the stream only while the handler still holds
  one, so that a further \<^verbatim>\<open>close()\<close> changes nothing, and a plain stream handler never
  closes its stream.
\<close>

datatype handler_kind = ConsoleHandler | FileHandler | OtherHandler

record handler =
  kind :: handler_kind
  hlevel :: int
  hfile :: "string option"
  closed :: bool
  stream_closes :: nat

definition close :: "handler \<Rightarrow> handler" where
  "close h =
     h\<lparr>closed := True,
       stream_closes :=
         (if kind h = FileHandler \<and> \<not> closed h then Suc (stream_closes h)
          else stream_closes h)\<rparr>"

definition StreamHandler :: handler where
  "StreamHandler =
     \<lparr>kind = ConsoleHandler, hlevel = logging_NOTSET, hfile = None,
      closed = False, stream_closes = 0\<rparr>"

definition new_FileHandler :: "string \<Rightarrow> handler" where
  "new_FileHandler f =
     \<lparr>kind = FileHandler, hlevel = logging_NOTSET, hfile = Some f,
      closed = False, stream_closes = 0\<rparr>"

section \<open>The host configuration and the process state\<close>

text \<open>
  The \<open>custom\<close> region of the host configuration is either mapping-like (it has a
  \<open>get\<close> attribute: containment, lookup and store by key) or an object with attributes
  and no \<open>get\<close>. \<open>logs_dir\<close> is the attribute \<open>paths.logs_dir\<close> when \<open>paths\<close> has it.
\<close>

datatype custom_region = MappingBacked pydict | AttributeBacked pydict

record host_config =
  custom :: custom_region
  logs_dir :: "string option"

text \<open>
  The process-wide state: the singleton reference \<open>_config\<close>, the configuration objects
  (a reference is an index into \<open>objects\<close>), the registry \<open>_file_handlers\<close>, the handler
  objects (a handler reference is an index into \<open>handlers\<close>), the root logger's level and
  handler list, and the directories created so far.
\<close>

record state =
  config_ref :: "nat option"
  objects :: "host_config list"
  file_handlers :: "nat list"
  handlers :: "handler list"
  root_level :: int
  root_handlers :: "nat list"
  dirs_made :: "string list"

text \<open>The state of a process that has just imported the module.\<close>

definition initial_state :: state where
  "initial_state =
     \<lparr>config_ref = None, objects = [], file_handlers = [], handlers = [],
      root_level = logging_WARNING, root_handlers = [], dirs_made = []\<rparr>"

text \<open>
  What the code consumes from outside: the host's loader, the test-harness marker
  \<open>PYTEST_CURRENT_TEST\<close>, the outcome of creating a directory and of opening a file
  for appending (\<open>None\<close>: success), and the attributes that the interpreter's logging
  module has beside those of \<open>logging_module\<close>.
\<close>

record env =
  load_config :: "string option \<Rightarrow> pyexc + host_config"
  pytest_current_test :: bool
  mkdir :: "string \<Rightarrow> pyexc option"
  open_append :: "string \<Rightarrow> pyexc option"
  logging_other :: "string \<Rightarrow> pyval option"

text \<open>
  The two tools differ in their name and in the defaults of their settings model
  (\<^verbatim>\<open>QuackMetadataConfig().model_dump()\<close>, \<^verbatim>\<open>QuackToolConfig().model_dump()\<close>).
\<close>

record tool =
  tool_name :: string
  model_dump :: pydict

definition quackmetadata :: tool where
  "quackmetadata =
     \<lparr>tool_name = ''quackmetadata'',
      model_dump =
        [(''default_prompt_template'', PStr ''generic''),
         (''max_retries'', PInt 3),
         (''output_format'', PStr ''json''),
         (''temp_dir'', PStr ''./temp''),
         (''output_dir'', PStr ''./output''),
         (''log_level'', PStr ''INFO'')]\<rparr>"

definition quacktool :: tool where
  "quacktool =
     \<lparr>tool_name = ''quacktool'',
      model_dump =
        [(''default_quality'', PInt 80),
         (''default_format'', PStr ''webp''),
         (''temp_dir'', PStr ''./temp''),
         (''output_dir'', PStr ''./output''),
         (''log_level'', PStr ''INFO'')]\<rparr>"

section \<open>Root logger operations\<close>

text \<open>\<^verbatim>\<open>handler.close()\<close> on the handler object behind a reference.\<close>

definition close_handler :: "nat \<Rightarrow> state \<Rightarrow> state" where
  "close_handler h s =
     (if h < length (handlers s)
      then s\<lparr>handlers := (handlers s)[h := close (handlers s ! h)]\<rparr>
      else s)"

text \<open>\<^verbatim>\<open>root_logger.removeHandler(h)\<close>\<close>

definition removeHandler :: "nat \<Rightarrow> state \<Rightarrow> state" where
  "removeHandler h s = s\<lparr>root_handlers := remove1 h (root_handlers s)\<rparr>"

text \<open>\<^verbatim>\<open>root_logger.addHandler(h)\<close>: a handler that is attached already is not added again.\<close>

definition addHandler :: "nat \<Rightarrow> state \<Rightarrow> state" where
  "addHandler h s =
     (if h \<in> set (root_handlers s) then s
      else s\<lparr>root_handlers := root_handlers s @ [h]\<rparr>)"

text \<open>Constructing a handler object: the new reference and the state holding the object.\<close>

definition new_handler :: "handler \<Rightarrow> state \<Rightarrow> nat \<times> state" where
  "new_handler h s = (length (handlers s), s\<lparr>handlers := handlers s @ [h]\<rparr>)"

text \<open>\<^verbatim>\<open>handler.setLevel(level)\<close> with a level that \<^verbatim>\<open>_checkLevel\<close> accepted.\<close>

definition handler_setLevel :: "nat \<Rightarrow> int \<Rightarrow> state \<Rightarrow> state" where
  "handler_setLevel h n s =
     (if h < length (handlers s)
      then s\<lparr>handlers := (handlers s)[h := (handlers s ! h)\<lparr>hlevel := n\<rparr>]\<rparr>
      else s)"

text \<open>\<^verbatim>\<open>root_logger.setLevel(level)\<close>\<close>

definition root_setLevel :: "pyval \<Rightarrow> state \<Rightarrow> (pyexc + int) \<times> state" where
  "root_setLevel lv s =
     (case check_level lv of
        Inl x \<Rightarrow> (Inl x, s)
      | Inr n \<Rightarrow> (Inr n, s\<lparr>root_level := n\<rparr>))"

definition kind_of :: "state \<Rightarrow> nat \<Rightarrow> handler_kind" where
  "kind_of s h = (if h < length (handlers s) then kind (handlers s ! h) else OtherHandler)"

text \<open>
  \<^verbatim>\<open>logging.basicConfig(level=lv, force=True)\<close>: every handler of the root logger is
  removed and closed, one new stream handler is attached, and then the level is set.
\<close>

fun remove_and_close_all :: "nat list \<Rightarrow> state \<Rightarrow> state" where
  "remove_and_close_all [] s = s"
| "remove_and_close_all (h # hs) s =
     remove_and_close_all hs (close_handler h (removeHandler h s))"

definition basicConfig :: "pyval \<Rightarrow> state \<Rightarrow> (pyexc + unit) \<times> state" where
  "basicConfig lv s =
     (let s1 = remove_and_close_all (root_handlers s) s;
          (h, s2) = new_handler StreamHandler s1;
          s3 = addHandler h s2
      in case root_setLevel lv s3 of
           (Inl x, s4) \<Rightarrow> (Inl x, s4)
         | (Inr _, s4) \<Rightarrow> (Inr (), s4))"

section \<open>initialize_config\<close>

text \<open>
  Lines 95 to 106: the tool's section is created from the settings model's defaults when
  the \<open>custom\<close> region lacks it, by key on a mapping and by attribute otherwise; the
  section is then read back.
\<close>

definition ensure_section :: "tool \<Rightarrow> custom_region \<Rightarrow> custom_region \<times> pyval" where
  "ensure_section t c =
     (case c of
        MappingBacked d \<Rightarrow>
          (let d' = (if \<not> dict_contains d (tool_name t)
                     then dict_setitem d (tool_name t) (PDict (model_dump t)) else d)
           in (MappingBacked d', dict_get d' (tool_name t) (PDict [])))
      | AttributeBacked a \<Rightarrow>
          (let a' = (if \<not> py_hasattr a (tool_name t)
                     then py_setattr a (tool_name t) (PDict (model_dump t)) else a)
           in (AttributeBacked a', py_getattr a' (tool_name t) (PDict []))))"

text \<open>
  Lines 109 to 113: the level name is read by key from a dictionary and by attribute from
  anything else, \<^verbatim>\<open>"INFO"\<close> being the default of both.
\<close>

fun log_level_name :: "pyval \<Rightarrow> pyval" where
  "log_level_name (PDict d) = dict_get d ''log_level'' (PStr ''INFO'')"
| "log_level_name (PObj a) = py_getattr a ''log_level'' (PStr ''INFO'')"
| "log_level_name _ = PStr ''INFO''"

text \<open>
  Line 114, \<^verbatim>\<open>getattr(logging, log_level_name, logging.INFO)\<close>: an attribute name must be
  a string; a name the module has yields that attribute, whatever it is, and any other
  name yields \<^verbatim>\<open>logging.INFO\<close>.
\<close>

fun resolve_log_level :: "env \<Rightarrow> pyval \<Rightarrow> pyexc + pyval" where
  "resolve_log_level e (PStr n) =
     Inr (case logging_module n of
            Some v \<Rightarrow> v
          | None \<Rightarrow> (case logging_other e n of Some v \<Rightarrow> v | None \<Rightarrow> PInt logging_INFO))"
| "resolve_log_level e _ = Inl TypeError"

text \<open>\<^verbatim>\<open>Path(d).mkdir(parents=True, exist_ok=True)\<close>\<close>

definition path_mkdir :: "env \<Rightarrow> string \<Rightarrow> state \<Rightarrow> (pyexc + unit) \<times> state" where
  "path_mkdir e d s =
     (case mkdir e d of
        Some x \<Rightarrow> (Inl x, s)
      | None \<Rightarrow> (Inr (), s\<lparr>dirs_made := dirs_made s @ [d]\<rparr>))"

text \<open>Lines 117 to 127: the branch taken under the test harness.\<close>

definition test_logging :: "env \<Rightarrow> pyval \<Rightarrow> state \<Rightarrow> (pyexc + unit) \<times> state" where
  "test_logging e lv s =
     (case basicConfig lv s of
        (Inl x, s1) \<Rightarrow> (Inl x, s1)
      | (Inr _, s1) \<Rightarrow> path_mkdir e ''./logs'' s1)"

text \<open>Lines 135 to 142: a console handler is attached when the root logger has none.\<close>

definition add_console_handler :: "int \<Rightarrow> state \<Rightarrow> state" where
  "add_console_handler n s =
     (let has_console_handler =
            list_ex (\<lambda>h. kind_of s h = ConsoleHandler) (root_handlers s)
      in if \<not> has_console_handler
         then (let (console_handler, s1) = new_handler StreamHandler s
               in addHandler console_handler (handler_setLevel console_handler n s1))
         else s)"

text \<open>
  Lines 145 to 148: the loop over a copy of the handler list, which removes and closes
  every file handler.
\<close>

fun remove_file_handlers :: "nat list \<Rightarrow> state \<Rightarrow> state" where
  "remove_file_handlers [] s = s"
| "remove_file_handlers (h # hs) s =
     remove_file_handlers hs
       (if kind_of s h = FileHandler then close_handler h (removeHandler h s) else s)"

text \<open>
  Lines 164 to 174: the log file is opened for appending, the handler attached and
  registered; an \<open>OSError\<close> is swallowed, any other exception propagates.
\<close>

definition add_file_handler :: "tool \<Rightarrow> env \<Rightarrow> string \<Rightarrow> int \<Rightarrow> state \<Rightarrow> (pyexc + unit) \<times> state" where
  "add_file_handler t e dir n s =
     (let log_file = dir @ ''/'' @ tool_name t @ ''.log''
      in case open_append e log_file of
           Some x \<Rightarrow> (if is_oserror x then (Inr (), s) else (Inl x, s))
         | None \<Rightarrow>
             (let (file_handler, s1) = new_handler (new_FileHandler log_file) s;
                  s2 = addHandler file_handler (handler_setLevel file_handler n s1)
              in (Inr (), s2\<lparr>file_handlers := file_handlers s2 @ [file_handler]\<rparr>)))"

text \<open>Lines 131 to 174: the branch taken in normal operation.\<close>

definition normal_logging ::
  "tool \<Rightarrow> env \<Rightarrow> host_config \<Rightarrow> pyval \<Rightarrow> state \<Rightarrow> (pyexc + unit) \<times> state" where
  "normal_logging t e quack_config lv s =
     (case root_setLevel lv s of
        (Inl x, s1) \<Rightarrow> (Inl x, s1)
      | (Inr n, s1) \<Rightarrow>
          (let s2 = add_console_handler n s1;
               s3 = remove_file_handlers (root_handlers s2) s2;
               dir = (case logs_dir quack_config of None \<Rightarrow> ''./logs'' | Some d \<Rightarrow> d)
           in case path_mkdir e dir s3 of
                (Inl x, s4) \<Rightarrow> (Inl x, s4)
              | (Inr _, s4) \<Rightarrow> add_file_handler t e dir n s4))"

text \<open>
  \<open>initialize_config\<close>: the singleton is reset, the host configuration loaded (the new
  object gets the next reference), the tool's section ensured, the level resolved and
  logging set up. The result is the reference of the loaded object, or the exception
  that escaped, with the state as the call left it.
\<close>

definition initialize_config ::
  "tool \<Rightarrow> env \<Rightarrow> string option \<Rightarrow> state \<Rightarrow> (pyexc + nat) \<times> state" where
  "initialize_config t e config_path s =
     (let s0 = s\<lparr>config_ref := None\<rparr>
      in case load_config e config_path of
           Inl x \<Rightarrow> (Inl x, s0)
         | Inr loaded \<Rightarrow>
             (let (custom', section) = ensure_section t (custom loaded);
                  quack_config = loaded\<lparr>custom := custom'\<rparr>;
                  r = length (objects s0);
                  s1 = s0\<lparr>objects := objects s0 @ [quack_config]\<rparr>
              in case resolve_log_level e (log_level_name section) of
                   Inl x \<Rightarrow> (Inl x, s1)
                 | Inr lv \<Rightarrow>
                     (case (if pytest_current_test e then test_logging e lv s1
                            else normal_logging t e quack_config lv s1) of
                        (Inl x, s2) \<Rightarrow> (Inl x, s2)
                      | (Inr _, s2) \<Rightarrow> (Inr r, s2))))"

section \<open>The singleton and the tool section\<close>

definition get_config :: "tool \<Rightarrow> env \<Rightarrow> state \<Rightarrow> (pyexc + nat) \<times> state" where
  "get_config t e s =
     (case config_ref s of
        None \<Rightarrow>
          (case initialize_config t e None s of
             (Inl x, s1) \<Rightarrow> (Inl x, s1)
           | (Inr r, s1) \<Rightarrow> (Inr r, s1\<lparr>config_ref := Some r\<rparr>))
      | Some r \<Rightarrow> (Inr r, s))"

text \<open>The object behind a configuration reference.\<close>

definition deref :: "state \<Rightarrow> nat \<Rightarrow> host_config" where
  "deref s r = objects s ! r"

text \<open>What \<open>get_tool_config\<close> reads from the \<open>custom\<close> region of an object.\<close>

definition section_of :: "tool \<Rightarrow> custom_region \<Rightarrow> pyval" where
  "section_of t c =
     (case c of
        MappingBacked d \<Rightarrow> dict_get d (tool_name t) (PDict [])
      | AttributeBacked a \<Rightarrow> py_getattr a (tool_name t) (PDict []))"

definition get_tool_config :: "tool \<Rightarrow> env \<Rightarrow> state \<Rightarrow> (pyexc + pyval) \<times> state" where
  "get_tool_config t e s =
     (case get_config t e s of
        (Inl x, s1) \<Rightarrow> (Inl x, s1)
      | (Inr config, s1) \<Rightarrow> (Inr (section_of t (custom (deref s1 config))), s1))"

text \<open>Lines 234 to 239: the store into the \<open>custom\<close> region, by key or by attribute.\<close>

definition store_section :: "tool \<Rightarrow> custom_region \<Rightarrow> pyval \<Rightarrow> custom_region" where
  "store_section t c v =
     (case c of
        MappingBacked d \<Rightarrow> MappingBacked (dict_setitem d (tool_name t) v)
      | AttributeBacked a \<Rightarrow> AttributeBacked (py_setattr a (tool_name t) v))"

text \<open>\<^verbatim>\<open>isinstance(v, dict)\<close>\<close>

fun isinstance_dict :: "pyval \<Rightarrow> bool" where
  "isinstance_dict (PDict _) = True"
| "isinstance_dict _ = False"

text \<open>
  A value is mapping-like when it maps keys to values, whether it is an instance of
  \<^verbatim>\<open>dict\<close> or not; \<open>mapping_items\<close> are its key-value pairs.
\<close>

fun mapping_like :: "pyval \<Rightarrow> bool" where
  "mapping_like (PDict _) = True"
| "mapping_like (PMapping _) = True"
| "mapping_like _ = False"

fun mapping_items :: "pyval \<Rightarrow> pydict" where
  "mapping_items (PDict d) = d"
| "mapping_items (PMapping d) = d"
| "mapping_items _ = []"

text \<open>Lines 227 to 231: a dictionary is copied and overlaid, anything else is replaced.\<close>

fun updated_config :: "pyval \<Rightarrow> pydict \<Rightarrow> pyval" where
  "updated_config (PDict d) new_config = PDict (dict_update d new_config)"
| "updated_config _ new_config = PDict new_config"

definition update_tool_config ::
  "tool \<Rightarrow> env \<Rightarrow> pydict \<Rightarrow> state \<Rightarrow> (pyexc + unit) \<times> state" where
  "update_tool_config t e new_config s =
     (case get_config t e s of
        (Inl x, s1) \<Rightarrow> (Inl x, s1)
      | (Inr config, s1) \<Rightarrow>
          (case get_tool_config t e s1 of
             (Inl x, s2) \<Rightarrow> (Inl x, s2)
           | (Inr tool_config, s2) \<Rightarrow>
               (let obj = deref s2 config;
                    obj' = obj\<lparr>custom :=
                             store_section t (custom obj) (updated_config tool_config new_config)\<rparr>
                in (Inr (), s2\<lparr>objects := (objects s2)[config := obj']\<rparr>))))"

section \<open>Cleanup at process exit\<close>

text \<open>
  \<open>_close_file_handlers\<close>: every handler of the registry is closed (a handler object is
  truthy), and the registry is emptied.
\<close>

fun close_each :: "nat list \<Rightarrow> state \<Rightarrow> state" where
  "close_each [] s = s"
| "close_each (h # hs) s = close_each hs (close_handler h s)"

definition close_file_handlers :: "state \<Rightarrow> state" where
  "close_file_handlers s = (close_each (file_handlers s) s)\<lparr>file_handlers := []\<rparr>"

text \<open>
  A run of the process through its public operations, each call in the environment it
  finds; an exception of one call does not stop the next.
\<close>

datatype call =
    Initialize "string option"
  | GetConfig
  | GetToolConfig
  | UpdateToolConfig pydict

fun perform :: "tool \<Rightarrow> env \<Rightarrow> call \<Rightarrow> state \<Rightarrow> state" where
  "perform t e (Initialize p) s = snd (initialize_config t e p s)"
| "perform t e GetConfig s = snd (get_config t e s)"
| "perform t e GetToolConfig s = snd (get_tool_config t e s)"
| "perform t e (UpdateToolConfig p) s = snd (update_tool_config t e p s)"

fun run :: "tool \<Rightarrow> (env \<times> call) list \<Rightarrow> state \<Rightarrow> state" where
  "run t [] s = s"
| "run t ((e, c) # cs) s = run t cs (perform t e c s)"

section \<open>Observations on the logging state\<close>

text \<open>The console handlers and the file handlers attached to the root logger.\<close>

definition console_handlers :: "state \<Rightarrow> nat list" where
  "console_handlers s = filter (\<lambda>h. kind_of s h = ConsoleHandler) (root_handlers s)"

definition attached_file_handlers :: "state \<Rightarrow> nat list" where
  "attached_file_handlers s = filter (\<lambda>h. kind_of s h = FileHandler) (root_handlers s)"

text \<open>Whether the handler behind a reference has been closed.\<close>

definition is_closed :: "state \<Rightarrow> nat \<Rightarrow> bool" where
  "is_closed s h = (h < length (handlers s) \<and> closed (handlers s ! h))"

text \<open>The entries of the registry that are still open, and those that are closed.\<close>

definition open_entries :: "state \<Rightarrow> nat list" where
  "open_entries s = filter (\<lambda>h. \<not> is_closed s h) (file_handlers s)"

definition closed_entries :: "state \<Rightarrow> nat list" where
  "closed_entries s = filter (is_closed s) (file_handlers s)"

text \<open>
  The invariant of the logging state: references are valid and not repeated; the root
  logger has at most one console handler and at most one file handler; every entry of
  the registry is a file handler which, while attached, is open with its file never
  closed, and once detached, is closed with its file closed once.
\<close>

definition entry_ok :: "state \<Rightarrow> nat \<Rightarrow> bool" where
  "entry_ok s h =
     (h < length (handlers s) \<and> kind (handlers s ! h) = FileHandler \<and>
      (if h \<in> set (root_handlers s)
       then \<not> closed (handlers s ! h) \<and> stream_closes (handlers s ! h) = 0
       else closed (handlers s ! h) \<and> stream_closes (handlers s ! h) = 1))"

definition logging_inv :: "state \<Rightarrow> bool" where
  "logging_inv s =
     (distinct (root_handlers s) \<and> list_all (\<lambda>h. h < length (handlers s)) (root_handlers s) \<and>
      distinct (file_handlers s) \<and> list_all (entry_ok s) (file_handlers s) \<and>
      length (console_handlers s) \<le> 1 \<and> length (attached_file_handlers s) \<le> 1)"

section \<open>Observations on the configuration\<close>

text \<open>Two states hold the same configuration objects and the same singleton reference.\<close>

definition same_config :: "state \<Rightarrow> state \<Rightarrow> bool" where
  "same_config s s' = (objects s' = objects s \<and> config_ref s' = config_ref s)"

text \<open>The \<open>custom\<close> region has no entry for the tool.\<close>

definition lacks_section :: "tool \<Rightarrow> custom_region \<Rightarrow> bool" where
  "lacks_section t c =
     (case c of
        MappingBacked d \<Rightarrow> \<not> dict_contains d (tool_name t)
      | AttributeBacked a \<Rightarrow> \<not> py_hasattr a (tool_name t))"

text \<open>
  The configuration object as \<open>initialize_config\<close> leaves it: the loaded one with the
  tool's section ensured.
\<close>

definition reconciled :: "tool \<Rightarrow> host_config \<Rightarrow> host_config" where
  "reconciled t loaded = loaded\<lparr>custom := fst (ensure_section t (custom loaded))\<rparr>"

section \<open>Auxiliary notions for the logging state\<close>

text \<open>
  The common shape of the two loops that detach and close handlers: every handler of the
  list that satisfies \<open>P\<close> is removed from the root logger and closed.
\<close>

fun sweep :: "(nat \<Rightarrow> bool) \<Rightarrow> nat list \<Rightarrow> state \<Rightarrow> state" where
  "sweep P [] s = s"
| "sweep P (h # hs) s = sweep P hs (if P h then close_handler h (removeHandler h s) else s)"

text \<open>A freshly constructed handler, attached to the root logger.\<close>

definition attach_new :: "handler \<Rightarrow> state \<Rightarrow> state" where
  "attach_new h s =
     s\<lparr>handlers := handlers s @ [h], root_handlers := root_handlers s @ [length (handlers s)]\<rparr>"

text \<open>Two states agree on the handlers, the root logger's list and the registry.\<close>

definition same_logging :: "state \<Rightarrow> state \<Rightarrow> bool" where
  "same_logging s s' =
     (handlers s' = handlers s \<and> root_handlers s' = root_handlers s \<and>
      file_handlers s' = file_handlers s)"

text \<open>A call of \<open>initialize_config\<close> in normal operation, outside the test harness.\<close>

fun normal_initialize :: "env \<times> call \<Rightarrow> bool" where
  "normal_initialize (e, Initialize p) = (\<not> pytest_current_test e)"
| "normal_initialize (e, _) = False"

section \<open>Example inputs\<close>

text \<open>
  The attributes that the logging module of one interpreter, a CPython 3.11 installed
  under \<^verbatim>\<open>/opt/python\<close>, has beside those of \<open>logging_module\<close>.
\<close>

definition cpython311_other :: "string \<Rightarrow> pyval option" where
  "cpython311_other = map_of
     [(''GenericAlias'', PCallable ''logging.GenericAlias''),
      (''Template'', PCallable ''logging.Template''),
      (''_STYLES'', POpaque ''dict''),
      (''_StderrHandler'', PCallable ''logging._StderrHandler''),
      (''__all__'', POpaque ''list''),
      (''__author__'', PStr ''Vinay Sajip <vinay_sajip@red-dove.com>''),
      (''__builtins__'', POpaque ''dict''),
      (''__cached__'', PStr ''/opt/python/lib/python3.11/logging/__pycache__/__init__.cpython-311.pyc''),
      (''__date__'', PStr ''07 February 2010''),
      (''__doc__'', PStr ''\<newline>Logging package for Python. Based on PEP 282 and comments thereto in\<newline>comp.lang.python.\<newline>\<newline>Copyright (C) 2001-2019 Vinay Sajip. All Rights Reserved.\<newline>\<newline>To use, simply 'import logging' and log away!\<newline>''),
      (''__file__'', PStr ''/opt/python/lib/python3.11/logging/__init__.py''),
      (''__loader__'', POpaque ''SourceFileLoader''),
      (''__name__'', PStr ''logging''),
      (''__package__'', PStr ''logging''),
      (''__path__'', POpaque ''list''),
      (''__spec__'', POpaque ''ModuleSpec''),
      (''__status__'', PStr ''production''),
      (''__version__'', PStr ''0.5.1.2''),
      (''_acquireLock'', PCallable ''logging._acquireLock''),
      (''_addHandlerRef'', PCallable ''logging._addHandlerRef''),
      (''_after_at_fork_child_reinit_locks'', PCallable ''logging._after_at_fork_child_reinit_locks''),
      (''_at_fork_reinit_lock_weakset'', POpaque ''WeakSet''),
      (''_checkLevel'', PCallable ''logging._checkLevel''),
      (''_defaultFormatter'', POpaque ''Formatter''),
      (''_defaultLastResort'', POpaque ''_StderrHandler''),
      (''_handlerList'', POpaque ''list''),
      (''_handlers'', POpaque ''WeakValueDictionary''),
      (''_is_internal_frame'', PCallable ''logging._is_internal_frame''),
      (''_levelToName'', POpaque ''dict''),
      (''_lock'', POpaque ''RLock''),
      (''_logRecordFactory'', PCallable ''logging._logRecordFactory''),
      (''_loggerClass'', PCallable ''logging._loggerClass''),
      (''_nameToLevel'', POpaque ''dict''),
      (''_register_at_fork_reinit_lock'', PCallable ''logging._register_at_fork_reinit_lock''),
      (''_releaseLock'', PCallable ''logging._releaseLock''),
      (''_removeHandlerRef'', PCallable ''logging._removeHandlerRef''),
      (''_showwarning'', PCallable ''logging._showwarning''),
      (''_srcfile'', PStr ''/opt/python/lib/python3.11/logging/__init__.py''),
      (''_startTime'', POpaque ''float''),
      (''_str_formatter'', POpaque ''Formatter''),
      (''_warnings_showwarning'', PNone),
      (''atexit'', POpaque ''module atexit''),
      (''collections'', POpaque ''module collections''),
      (''getLevelNamesMapping'', PCallable ''logging.getLevelNamesMapping''),
      (''io'', POpaque ''module io''),
      (''os'', POpaque ''module os''),
      (''re'', POpaque ''module re''),
      (''sys'', POpaque ''module sys''),
      (''threading'', POpaque ''module threading''),
      (''time'', POpaque ''module time''),
      (''traceback'', POpaque ''module traceback''),
      (''warn'', PCallable ''logging.warn''),
      (''warnings'', POpaque ''module warnings''),
      (''weakref'', POpaque ''module weakref'')]"

text \<open>
  A host with that interpreter where the loader returns the given configuration and the
  filesystem works.
\<close>

definition working_env :: "host_config \<Rightarrow> env" where
  "working_env c =
     \<lparr>load_config = (\<lambda>_. Inr c), pytest_current_test = False,
      mkdir = (\<lambda>_. None), open_append = (\<lambda>_. None),
      logging_other = cpython311_other\<rparr>"

text \<open>The same host under the test harness.\<close>

definition pytest_env :: "host_config \<Rightarrow> env" where
  "pytest_env c = (working_env c)\<lparr>pytest_current_test := True\<rparr>"

text \<open>A host whose logs directory cannot be created: permission denied.\<close>

definition mkdir_denied_env :: "host_config \<Rightarrow> env" where
  "mkdir_denied_env c = (working_env c)\<lparr>mkdir := (\<lambda>_. Some (OSError PermissionDenied))\<rparr>"

text \<open>A host on a read-only filesystem whose logs directory exists: the open fails.\<close>

definition open_denied_env :: "host_config \<Rightarrow> env" where
  "open_denied_env c =
     (working_env c)\<lparr>open_append := (\<lambda>_. Some (OSError ReadOnlyFilesystem))\<rparr>"

text \<open>A host whose configuration source is corrupt: the loader raises.\<close>

definition broken_loader_env :: env where
  "broken_loader_env =
     \<lparr>load_config = (\<lambda>_. Inl (OtherException ''QuackConfigurationError'')),
      pytest_current_test = False, mkdir = (\<lambda>_. None), open_append = (\<lambda>_. None),
      logging_other = cpython311_other\<rparr>"

text \<open>Fresh host configurations of both shapes, without the tool's entry.\<close>

definition fresh_mapping_config :: host_config where
  "fresh_mapping_config = \<lparr>custom = MappingBacked [], logs_dir = None\<rparr>"

definition fresh_object_config :: host_config where
  "fresh_object_config = \<lparr>custom = AttributeBacked [], logs_dir = Some ''/var/log/quack''\<rparr>"

text \<open>A host configuration whose tool section asks for the level \<^verbatim>\<open>"info"\<close>.\<close>

definition lowercase_level_config :: host_config where
  "lowercase_level_config =
     \<lparr>custom = MappingBacked
        [(''quackmetadata'', PDict [(''log_level'', PStr ''info'')])],
      logs_dir = None\<rparr>"

text \<open>A host configuration whose tool section asks for a level name that does not exist.\<close>

definition unknown_level_config :: host_config where
  "unknown_level_config =
     \<lparr>custom = MappingBacked
        [(''quackmetadata'', PDict [(''log_level'', PStr ''VERBOSE'')])],
      logs_dir = None\<rparr>"

text \<open>
  A process that holds a cached configuration whose tool section is the dictionary
  \<^verbatim>\<open>{a: 1, b: 2}\<close>, and one whose tool section is the string \<^verbatim>\<open>"legacy"\<close> on an
  attribute-bearing \<open>custom\<close> region.
\<close>

definition cached_ab_state :: state where
  "cached_ab_state =
     initial_state\<lparr>config_ref := Some 0,
       objects := [\<lparr>custom = MappingBacked
                      [(''quackmetadata'', PDict [(''a'', PInt 1), (''b'', PInt 2)])],
                    logs_dir = None\<rparr>]\<rparr>"

definition cached_scalar_state :: state where
  "cached_scalar_state =
     initial_state\<lparr>config_ref := Some 0,
       objects := [\<lparr>custom = AttributeBacked [(''quackmetadata'', PStr ''legacy'')],
                    logs_dir = None\<rparr>]\<rparr>"

text \<open>
  A process that holds a cached configuration whose tool section is a mapping
  \<^verbatim>\<open>{a: 1, b: 2}\<close> that is not an instance of \<^verbatim>\<open>dict\<close>.
\<close>

definition cached_mapping_state :: state where
  "cached_mapping_state =
     initial_state\<lparr>config_ref := Some 0,
       objects := [\<lparr>custom = MappingBacked
                      [(''quackmetadata'', PMapping [(''a'', PInt 1), (''b'', PInt 2)])],
                    logs_dir = None\<rparr>]\<rparr>"

text \<open>A process that initialized twice in a working host.\<close>

definition restarted_twice :: state where
  "restarted_twice =
     run quackmetadata
       [(working_env fresh_mapping_config, Initialize None),
        (working_env fresh_mapping_config, Initialize None)] initial_state"

section \<open>Dictionaries\<close>

lemma map_of_dict_setitem: "map_of (dict_setitem d k v) = (map_of d)(k \<mapsto> v)"
  by (induction d k v rule: dict_setitem.induct) (auto simp: fun_eq_iff)

lemma keys_dict_setitem: "set (map fst (dict_setitem d k v)) = insert k (set (map fst d))"
  by (induction d k v rule: dict_setitem.induct) auto

lemma distinct_dict_setitem:
  "distinct (map fst d) \<Longrightarrow> distinct (map fst (dict_setitem d k v))"
proof (induction d k v rule: dict_setitem.induct)
  case (1 k v)
  then show ?case by simp
next
  case (2 k' v' d k v)
  have "set (map fst (dict_setitem d k v)) = insert k (set (map fst d))"
    by (rule keys_dict_setitem)
  with 2 show ?case by auto
qed

lemma map_of_dict_update:
  "distinct (map fst p) \<Longrightarrow> map_of (dict_update d p) = map_of d ++ map_of p"
proof (induction d p rule: dict_update.induct)
  case (1 d)
  then show ?case by simp
next
  case (2 d k v p)
  then have "k \<notin> dom (map_of p)"
    by (auto simp: dom_map_of_conv_image_fst)
  then have "map_of p k = None"
    by blast
  with 2 show ?case
    by (auto simp: map_of_dict_setitem fun_eq_iff map_add_def split: option.splits)
qed

lemma distinct_dict_update:
  "distinct (map fst d) \<Longrightarrow> distinct (map fst (dict_update d p))"
  by (induction d p rule: dict_update.induct) (auto simp: distinct_dict_setitem)

lemma section_of_store: "section_of t (store_section t c v) = v"
  by (cases c) (simp_all add: section_of_def store_section_def py_getattr_def py_setattr_def
      dict_get_def map_of_dict_setitem)

lemma updated_config_non_dict: "\<not> isinstance_dict v \<Longrightarrow> updated_config v p = PDict p"
  by (cases v) simp_all

section \<open>The cached singleton\<close>

lemma get_config_cached: "config_ref s = Some r \<Longrightarrow> get_config t e s = (Inr r, s)"
  by (simp add: get_config_def)

lemma update_tool_config_cached:
  "config_ref s = Some r \<Longrightarrow>
   update_tool_config t e p s =
     (Inr (), s\<lparr>objects := (objects s)[r := (deref s r)\<lparr>custom :=
        store_section t (custom (deref s r))
          (updated_config (section_of t (custom (deref s r))) p)\<rparr>]\<rparr>)"
  by (simp add: update_tool_config_def get_tool_config_def get_config_def Let_def)

text \<open>
  Claim C5. In every state whose singleton reference is populated, \<open>get_config\<close> returns
  that very reference and leaves the whole process state as it was: initialization is
  not run again, and the handler list of the root logger, being part of the state,
  gets no second console handler.
\<close>

theorem cached_config_returned:
  "config_ref s = Some r \<Longrightarrow> get_config t e s = (Inr r, s)"
  by (simp add: get_config_def)

theorem cached_config_returned_witness:
  "config_ref cached_ab_state = Some 0 \<and>
   get_config quackmetadata broken_loader_env cached_ab_state = (Inr 0, cached_ab_state)"
proof -
  have h: "config_ref cached_ab_state = Some 0"
    by (simp add: cached_ab_state_def)
  from cached_config_returned [OF h] h show ?thesis by simp
qed

section \<open>Updating the tool section\<close>

text \<open>
  Claim C3, amended. When the current tool section is an instance of \<^verbatim>\<open>dict\<close> with the
  items \<open>S\<close>, \<open>update_tool_config\<close> with the partial mapping \<open>P\<close> stores the dictionary
  \<open>S\<close> overlaid with \<open>P\<close>: looking a key up in the new section gives the value of \<open>P\<close>
  where \<open>P\<close> has the key and the value of \<open>S\<close> otherwise, so keys of \<open>P\<close> that \<open>S\<close> lacks
  are added and the other keys of \<open>S\<close> survive.
\<close>

theorem update_merges_mapping_section:
  assumes "config_ref s = Some r" and "r < length (objects s)"
    and "section_of t (custom (deref s r)) = PDict S"
    and "distinct (map fst P)"
  shows "\<exists>s'. update_tool_config t e P s = (Inr (), s') \<and>
           section_of t (custom (deref s' r)) = PDict (dict_update S P) \<and>
           (\<forall>k. map_of (dict_update S P) k =
                  (case map_of P k of Some v \<Rightarrow> Some v | None \<Rightarrow> map_of S k))"
  using assms
  by (simp add: update_tool_config_cached deref_def section_of_store map_of_dict_update
      map_add_def)

theorem update_merges_mapping_section_witness:
  "config_ref cached_ab_state = Some 0 \<and> 0 < length (objects cached_ab_state) \<and>
   section_of quackmetadata (custom (deref cached_ab_state 0))
     = PDict [(''a'', PInt 1), (''b'', PInt 2)] \<and>
   distinct (map fst [(''b'', PInt 3), (''c'', PInt 4)]) \<and>
   (\<exists>s'. update_tool_config quackmetadata broken_loader_env [(''b'', PInt 3), (''c'', PInt 4)]
            cached_ab_state = (Inr (), s') \<and>
          section_of quackmetadata (custom (deref s' 0))
            = PDict [(''a'', PInt 1), (''b'', PInt 3), (''c'', PInt 4)])"
proof -
  have h1: "config_ref cached_ab_state = Some 0"
    by (simp add: cached_ab_state_def)
  have h2: "0 < length (objects cached_ab_state)"
    by (simp add: cached_ab_state_def)
  have h3: "section_of quackmetadata (custom (deref cached_ab_state 0))
     = PDict [(''a'', PInt 1), (''b'', PInt 2)]"
    by (simp add: cached_ab_state_def deref_def section_of_def dict_get_def quackmetadata_def)
  have h4: "distinct (map fst [(''b'', PInt 3), (''c'', PInt 4)])"
    by simp
  have m: "dict_update [(''a'', PInt 1), (''b'', PInt 2)] [(''b'', PInt 3), (''c'', PInt 4)]
             = [(''a'', PInt 1), (''b'', PInt 3), (''c'', PInt 4)]"
    by simp
  from update_merges_mapping_section [OF h1 h2 h3 h4, of broken_loader_env]
  have "\<exists>s'. update_tool_config quackmetadata broken_loader_env
                [(''b'', PInt 3), (''c'', PInt 4)] cached_ab_state = (Inr (), s') \<and>
          section_of quackmetadata (custom (deref s' 0))
            = PDict [(''a'', PInt 1), (''b'', PInt 3), (''c'', PInt 4)]"
    unfolding m by blast
  with h1 h2 h3 h4 show ?thesis by blast
qed

text \<open>
  Claim C3 as stated, for every mapping-like section, fails: the code merges behind the
  test \<^verbatim>\<open>isinstance(tool_config, dict)\<close> only. A section that is a mapping
  \<^verbatim>\<open>{a: 1, b: 2}\<close> but no instance of \<^verbatim>\<open>dict\<close>, updated with \<^verbatim>\<open>{b: 3, c: 4}\<close>, becomes
  \<^verbatim>\<open>{b: 3, c: 4}\<close>: the key \<^verbatim>\<open>a\<close> does not survive.
\<close>

theorem non_dict_mapping_not_merged:
  "mapping_like (section_of quackmetadata (custom (deref cached_mapping_state 0))) \<and>
   mapping_items (section_of quackmetadata (custom (deref cached_mapping_state 0)))
     = [(''a'', PInt 1), (''b'', PInt 2)] \<and>
   fst (update_tool_config quackmetadata broken_loader_env [(''b'', PInt 3), (''c'', PInt 4)]
          cached_mapping_state) = Inr () \<and>
   section_of quackmetadata
     (custom (deref (snd (update_tool_config quackmetadata broken_loader_env
        [(''b'', PInt 3), (''c'', PInt 4)] cached_mapping_state)) 0))
     = PDict [(''b'', PInt 3), (''c'', PInt 4)]"
  by code_simp

text \<open>
  Claim C4. When the current tool section is not a dictionary, \<open>update_tool_config\<close>
  stores the partial mapping \<open>P\<close> itself as the new section, by key when the \<open>custom\<close>
  region is mapping-like and by attribute otherwise.
\<close>

theorem non_mapping_section_replaced:
  assumes "config_ref s = Some r" and "r < length (objects s)"
    and "\<not> isinstance_dict (section_of t (custom (deref s r)))"
  shows "\<exists>s'. update_tool_config t e P s = (Inr (), s') \<and>
           section_of t (custom (deref s' r)) = PDict P \<and>
           custom (deref s' r) =
             (case custom (deref s r) of
                MappingBacked d \<Rightarrow> MappingBacked (dict_setitem d (tool_name t) (PDict P))
              | AttributeBacked a \<Rightarrow> AttributeBacked (py_setattr a (tool_name t) (PDict P)))"
proof -
  let ?c = "custom (deref s r)"
  let ?s' = "s\<lparr>objects :=
                 (objects s)[r := (deref s r)\<lparr>custom := store_section t ?c (PDict P)\<rparr>]\<rparr>"
  have run: "update_tool_config t e P s = (Inr (), ?s')"
    using assms by (simp add: update_tool_config_cached updated_config_non_dict)
  have obj: "custom (deref ?s' r) = store_section t ?c (PDict P)"
    using assms by (simp add: deref_def)
  have sec: "section_of t (custom (deref ?s' r)) = PDict P"
    unfolding obj by (rule section_of_store)
  have shape: "store_section t ?c (PDict P) =
      (case ?c of
         MappingBacked d \<Rightarrow> MappingBacked (dict_setitem d (tool_name t) (PDict P))
       | AttributeBacked a \<Rightarrow> AttributeBacked (py_setattr a (tool_name t) (PDict P)))"
    by (simp add: store_section_def)
  from run sec obj shape show ?thesis by metis
qed

theorem non_mapping_section_replaced_witness:
  "config_ref cached_scalar_state = Some 0 \<and> 0 < length (objects cached_scalar_state) \<and>
   \<not> isinstance_dict (section_of quackmetadata (custom (deref cached_scalar_state 0))) \<and>
   (\<exists>s'. update_tool_config quackmetadata broken_loader_env [(''log_level'', PStr ''DEBUG'')]
            cached_scalar_state = (Inr (), s') \<and>
          custom (deref s' 0) =
            AttributeBacked [(''quackmetadata'', PDict [(''log_level'', PStr ''DEBUG'')])])"
proof -
  let ?P = "[(''log_level'', PStr ''DEBUG'')]"
  have h1: "config_ref cached_scalar_state = Some 0"
    by (simp add: cached_scalar_state_def)
  have h2: "0 < length (objects cached_scalar_state)"
    by (simp add: cached_scalar_state_def)
  have h3: "\<not> isinstance_dict (section_of quackmetadata (custom (deref cached_scalar_state 0)))"
    by (simp add: cached_scalar_state_def deref_def section_of_def py_getattr_def
        quackmetadata_def)
  have c: "custom (deref cached_scalar_state 0)
             = AttributeBacked [(''quackmetadata'', PStr ''legacy'')]"
    by (simp add: cached_scalar_state_def deref_def)
  from non_mapping_section_replaced [OF h1 h2 h3, of broken_loader_env ?P]
  obtain s' where "update_tool_config quackmetadata broken_loader_env ?P cached_scalar_state
                     = (Inr (), s')"
    and "custom (deref s' 0) =
           (case custom (deref cached_scalar_state 0) of
              MappingBacked d \<Rightarrow>
                MappingBacked (dict_setitem d (tool_name quackmetadata) (PDict ?P))
            | AttributeBacked a \<Rightarrow>
                AttributeBacked (py_setattr a (tool_name quackmetadata) (PDict ?P)))"
    by blast
  then have "update_tool_config quackmetadata broken_loader_env ?P cached_scalar_state
               = (Inr (), s') \<and>
             custom (deref s' 0) = AttributeBacked [(''quackmetadata'', PDict ?P)]"
    by (simp add: c py_setattr_def quackmetadata_def)
  with h1 h2 h3 show ?thesis by blast
qed

section \<open>Failures of initialization\<close>

lemma initialize_config_loader_error:
  "load_config e p = Inl x \<Longrightarrow> initialize_config t e p s = (Inl x, s\<lparr>config_ref := None\<rparr>)"
  by (simp add: initialize_config_def)

text \<open>
  Claim C9. Whatever exception the external loader raises leaves \<open>initialize_config\<close>
  as it is, and leaves \<open>get_config\<close> too when the singleton is unset: nothing on the
  way handles it.
\<close>

theorem loader_error_propagates:
  "load_config e p = Inl x \<Longrightarrow>
   fst (initialize_config t e p s) = Inl x \<and>
   (p = None \<and> config_ref s = None \<longrightarrow> fst (get_config t e s) = Inl x)"
  by (auto simp: initialize_config_loader_error get_config_def)

theorem loader_error_propagates_witness:
  "load_config broken_loader_env None = Inl (OtherException ''QuackConfigurationError'') \<and>
   fst (initialize_config quackmetadata broken_loader_env None initial_state)
     = Inl (OtherException ''QuackConfigurationError'') \<and>
   fst (get_config quackmetadata broken_loader_env initial_state)
     = Inl (OtherException ''QuackConfigurationError'')"
proof -
  have h: "load_config broken_loader_env None = Inl (OtherException ''QuackConfigurationError'')"
    by (simp add: broken_loader_env_def)
  have c: "config_ref initial_state = None"
    by (simp add: initial_state_def)
  from loader_error_propagates [OF h, of quackmetadata initial_state] h c
  show ?thesis by simp
qed

text \<open>
  Claim C1, at an input where the code does otherwise. In normal operation, on a host
  where creating the logs directory is denied, \<open>initialize_config\<close> ends with the
  \<open>OSError\<close> of the directory creation: the call at line 162 stands before the \<^verbatim>\<open>try\<close>
  block, which guards the opening of the log file only.
\<close>

theorem mkdir_error_escapes:
  "fst (initialize_config quackmetadata (mkdir_denied_env fresh_mapping_config) None
          initial_state) = Inl (OSError PermissionDenied)"
  by code_simp

text \<open>
  The guarded half: an \<open>OSError\<close> on opening the log file is swallowed, the
  configuration is returned and the root logger keeps its console handler alone.
\<close>

lemma open_error_swallowed:
  "open_append e (dir @ ''/'' @ tool_name t @ ''.log'') = Some (OSError k) \<Longrightarrow>
   add_file_handler t e dir n s = (Inr (), s)"
  by (simp add: add_file_handler_def)

lemma open_error_console_only:
  "fst (initialize_config quackmetadata (open_denied_env fresh_mapping_config) None
          initial_state) = Inr 0 \<and>
   console_handlers (snd (initialize_config quackmetadata
     (open_denied_env fresh_mapping_config) None initial_state)) = [0] \<and>
   attached_file_handlers (snd (initialize_config quackmetadata
     (open_denied_env fresh_mapping_config) None initial_state)) = []"
  by code_simp

text \<open>
  Claim C2, at an input where the code does otherwise. The level name \<^verbatim>\<open>"info"\<close> is not
  in the level table, but it is an attribute of the logging module (the function
  \<^verbatim>\<open>logging.info\<close>): \<^verbatim>\<open>getattr\<close> returns the function instead of the default, and
  \<^verbatim>\<open>setLevel\<close> rejects it with a \<open>TypeError\<close>, which leaves \<open>initialize_config\<close>.
\<close>

theorem lowercase_level_raises:
  "name_to_level ''info'' = None \<and>
   fst (initialize_config quackmetadata (working_env lowercase_level_config) None
          initial_state) = Inl TypeError"
  by code_simp

text \<open>A name that the module does not have falls back to the level of \<^verbatim>\<open>logging.INFO\<close>.\<close>

lemma unknown_level_falls_back:
  "fst (initialize_config quackmetadata (working_env unknown_level_config) None initial_state)
     = Inr 0 \<and>
   root_level (snd (initialize_config quackmetadata (working_env unknown_level_config) None
     initial_state)) = logging_INFO"
  by code_simp

section \<open>Logging leaves the configuration alone\<close>

lemma same_config_refl: "same_config s s"
  by (simp add: same_config_def)

lemma same_config_trans: "same_config s s1 \<Longrightarrow> same_config s1 s2 \<Longrightarrow> same_config s s2"
  by (simp add: same_config_def)

lemma same_config_close_handler: "same_config s (close_handler h s)"
  by (simp add: same_config_def close_handler_def)

lemma same_config_removeHandler: "same_config s (removeHandler h s)"
  by (simp add: same_config_def removeHandler_def)

lemma same_config_addHandler: "same_config s (addHandler h s)"
  by (simp add: same_config_def addHandler_def)

lemma same_config_new_handler: "same_config s (snd (new_handler h s))"
  by (simp add: same_config_def new_handler_def)

lemma same_config_handler_setLevel: "same_config s (handler_setLevel h n s)"
  by (simp add: same_config_def handler_setLevel_def)

lemma same_config_root_setLevel: "same_config s (snd (root_setLevel lv s))"
  by (simp add: same_config_def root_setLevel_def split: sum.splits)

lemma same_config_remove_and_close_all: "same_config s (remove_and_close_all hs s)"
proof (induction hs arbitrary: s)
  case Nil
  show ?case by (simp add: same_config_refl)
next
  case (Cons h hs)
  have "same_config s (close_handler h (removeHandler h s))"
    by (rule same_config_trans [OF same_config_removeHandler same_config_close_handler])
  from same_config_trans [OF this Cons] show ?case by simp
qed

lemma same_config_remove_file_handlers: "same_config s (remove_file_handlers hs s)"
proof (induction hs arbitrary: s)
  case Nil
  show ?case by (simp add: same_config_refl)
next
  case (Cons h hs)
  have "same_config s (if kind_of s h = FileHandler then close_handler h (removeHandler h s) else s)"
    by (simp add: same_config_refl
        same_config_trans [OF same_config_removeHandler same_config_close_handler])
  from same_config_trans [OF this Cons] show ?case by simp
qed

lemma same_config_basicConfig: "same_config s (snd (basicConfig lv s))"
  by (simp add: basicConfig_def Let_def new_handler_def addHandler_def root_setLevel_def
      split: sum.splits prod.splits)
     (use same_config_remove_and_close_all [of s "root_handlers s"] in \<open>auto simp: same_config_def\<close>)

lemma same_config_path_mkdir: "same_config s (snd (path_mkdir e d s))"
  by (simp add: same_config_def path_mkdir_def split: option.splits)

lemma same_config_test_logging: "same_config s (snd (test_logging e lv s))"
proof -
  have "same_config s (snd (basicConfig lv s))" by (rule same_config_basicConfig)
  moreover have "same_config (snd (basicConfig lv s)) (snd (path_mkdir e ''./logs'' (snd (basicConfig lv s))))"
    by (rule same_config_path_mkdir)
  ultimately show ?thesis
    by (auto simp: test_logging_def split: prod.splits sum.splits dest: same_config_trans)
qed

lemma same_config_add_console_handler: "same_config s (add_console_handler n s)"
  by (simp add: same_config_def add_console_handler_def Let_def new_handler_def addHandler_def
      handler_setLevel_def)

lemma same_config_add_file_handler: "same_config s (snd (add_file_handler t e dir n s))"
  by (simp add: same_config_def add_file_handler_def Let_def new_handler_def addHandler_def
      handler_setLevel_def split: option.splits)

lemma same_config_normal_logging: "same_config s (snd (normal_logging t e qc lv s))"
proof (cases "check_level lv")
  case (Inl x)
  then show ?thesis
    by (simp add: normal_logging_def root_setLevel_def same_config_refl)
next
  case (Inr n)
  let ?s1 = "s\<lparr>root_level := n\<rparr>"
  let ?s2 = "add_console_handler n ?s1"
  let ?s3 = "remove_file_handlers (root_handlers ?s2) ?s2"
  let ?dir = "case logs_dir qc of None \<Rightarrow> ''./logs'' | Some d \<Rightarrow> d"
  have 1: "same_config s ?s1" by (simp add: same_config_def)
  have 2: "same_config s ?s3"
    using 1 same_config_add_console_handler [of ?s1 n] same_config_remove_file_handlers [of ?s2 "root_handlers ?s2"]
    by (blast intro: same_config_trans)
  have 3: "same_config s (snd (path_mkdir e ?dir ?s3))"
    using 2 same_config_path_mkdir by (blast intro: same_config_trans)
  have 4: "same_config s (snd (add_file_handler t e ?dir n (snd (path_mkdir e ?dir ?s3))))"
    using 3 same_config_add_file_handler by (blast intro: same_config_trans)
  show ?thesis
    using Inr 3 4
    by (simp add: normal_logging_def root_setLevel_def Let_def split: prod.splits sum.splits)
       (metis snd_conv)
qed

section \<open>What initialization builds\<close>

lemma ensure_section_snd: "snd (ensure_section t c) = section_of t (fst (ensure_section t c))"
  by (cases c) (simp_all add: ensure_section_def section_of_def Let_def)

lemma ensure_section_lacking:
  "lacks_section t c \<Longrightarrow> section_of t (fst (ensure_section t c)) = PDict (model_dump t)"
  by (cases c) (simp_all add: ensure_section_def section_of_def lacks_section_def Let_def
      dict_get_def py_getattr_def py_setattr_def map_of_dict_setitem)

lemma ensure_section_present:
  "\<not> lacks_section t c \<Longrightarrow> fst (ensure_section t c) = c"
  by (cases c) (simp_all add: ensure_section_def lacks_section_def Let_def)

lemma snd_rewrap:
  "snd (case X of (Inl x, s2) \<Rightarrow> (Inl x, s2) | (Inr u, s2) \<Rightarrow> (Inr r, s2)) = snd X"
  by (simp split: prod.splits sum.splits)

lemma fst_rewrap:
  "fst (case X of (Inl x, s2) \<Rightarrow> (Inl x, s2) | (Inr u, s2) \<Rightarrow> (Inr r, s2)) =
     (case fst X of Inl x \<Rightarrow> Inl x | Inr u \<Rightarrow> Inr r)"
  by (simp split: prod.splits sum.splits)

lemma initialize_config_snd:
  assumes "load_config e p = Inr loaded"
  shows "snd (initialize_config t e p s) =
     (case resolve_log_level e (log_level_name (section_of t (custom (reconciled t loaded)))) of
        Inl x \<Rightarrow> s\<lparr>config_ref := None, objects := objects s @ [reconciled t loaded]\<rparr>
      | Inr lv \<Rightarrow>
          snd (if pytest_current_test e
               then test_logging e lv
                      (s\<lparr>config_ref := None, objects := objects s @ [reconciled t loaded]\<rparr>)
               else normal_logging t e (reconciled t loaded) lv
                      (s\<lparr>config_ref := None, objects := objects s @ [reconciled t loaded]\<rparr>)))"
proof -
  obtain c' sec where es: "ensure_section t (custom loaded) = (c', sec)"
    by (cases "ensure_section t (custom loaded)")
  have sec: "sec = section_of t (custom (reconciled t loaded))"
    using ensure_section_snd [of t "custom loaded"] es by (simp add: reconciled_def)
  have rec: "loaded\<lparr>custom := c'\<rparr> = reconciled t loaded"
    using es by (simp add: reconciled_def)
  show ?thesis
    unfolding initialize_config_def Let_def
    by (simp add: assms es rec sec [symmetric] snd_rewrap split: sum.splits)
qed

lemma initialize_config_fst:
  assumes "load_config e p = Inr loaded"
  shows "fst (initialize_config t e p s) =
     (case resolve_log_level e (log_level_name (section_of t (custom (reconciled t loaded)))) of
        Inl x \<Rightarrow> Inl x
      | Inr lv \<Rightarrow>
          (case fst (if pytest_current_test e
               then test_logging e lv
                      (s\<lparr>config_ref := None, objects := objects s @ [reconciled t loaded]\<rparr>)
               else normal_logging t e (reconciled t loaded) lv
                      (s\<lparr>config_ref := None, objects := objects s @ [reconciled t loaded]\<rparr>)) of
             Inl x \<Rightarrow> Inl x
           | Inr u \<Rightarrow> Inr (length (objects s))))"
proof -
  obtain c' sec where es: "ensure_section t (custom loaded) = (c', sec)"
    by (cases "ensure_section t (custom loaded)")
  have sec: "sec = section_of t (custom (reconciled t loaded))"
    using ensure_section_snd [of t "custom loaded"] es by (simp add: reconciled_def)
  have rec: "loaded\<lparr>custom := c'\<rparr> = reconciled t loaded"
    using es by (simp add: reconciled_def)
  show ?thesis
    unfolding initialize_config_def Let_def
    by (simp add: assms es rec sec [symmetric] fst_rewrap split: sum.splits)
qed

lemma initialize_config_objects:
  assumes "load_config e p = Inr loaded"
  shows "objects (snd (initialize_config t e p s)) = objects s @ [reconciled t loaded] \<and>
         config_ref (snd (initialize_config t e p s)) = None"
proof -
  let ?qc = "reconciled t loaded"
  let ?s1 = "s\<lparr>config_ref := None, objects := objects s @ [?qc]\<rparr>"
  have a: "same_config ?s1 (snd (test_logging e lv ?s1))" for lv
    by (rule same_config_test_logging)
  have b: "same_config ?s1 (snd (normal_logging t e ?qc lv ?s1))" for lv
    by (rule same_config_normal_logging)
  show ?thesis
    unfolding initialize_config_snd [OF assms]
    using a b by (simp add: same_config_def split: sum.splits)
qed

lemma initialize_config_ref:
  "initialize_config t e p s = (Inr r, s1) \<Longrightarrow> r = length (objects s)"
  by (auto simp: initialize_config_def Let_def split: prod.splits sum.splits if_splits)

lemma initialize_config_loaded:
  "initialize_config t e p s = (Inr r, s1) \<Longrightarrow> \<exists>loaded. load_config e p = Inr loaded"
  by (cases "load_config e p") (auto simp: initialize_config_def)

lemma initialize_config_success:
  assumes "initialize_config t e p s = (Inr r, s1)"
  obtains loaded where "load_config e p = Inr loaded" and "r = length (objects s)"
    and "objects s1 = objects s @ [reconciled t loaded]" and "config_ref s1 = None"
proof -
  from initialize_config_loaded [OF assms] obtain loaded where l: "load_config e p = Inr loaded" ..
  from initialize_config_objects [OF l, of t s] assms
  have "objects s1 = objects s @ [reconciled t loaded]" "config_ref s1 = None" by simp_all
  with l initialize_config_ref [OF assms] that show thesis by blast
qed

lemma get_config_fresh:
  assumes "config_ref s = None" and "initialize_config t e None s = (Inr r, s1)"
  shows "get_config t e s = (Inr r, s1\<lparr>config_ref := Some r\<rparr>)"
  using assms by (simp add: get_config_def)

lemma basicConfig_ok: "check_level lv = Inr n \<Longrightarrow> fst (basicConfig lv s) = Inr ()"
  by (simp add: basicConfig_def Let_def root_setLevel_def split: prod.splits)

lemma test_logging_ok:
  assumes "check_level lv = Inr n" and "mkdir e ''./logs'' = None"
  shows "fst (test_logging e lv s) = Inr ()"
proof -
  obtain s1 where "basicConfig lv s = (Inr (), s1)"
    using basicConfig_ok [OF assms(1), of s] by (cases "basicConfig lv s") simp
  then show ?thesis
    using assms(2) by (simp add: test_logging_def path_mkdir_def)
qed

lemma add_file_handler_ok:
  "(\<And>x. open_append e (dir @ ''/'' @ tool_name t @ ''.log'') = Some x \<Longrightarrow> is_oserror x) \<Longrightarrow>
   fst (add_file_handler t e dir n s) = Inr ()"
  by (auto simp: add_file_handler_def Let_def split: option.splits prod.splits)

lemma normal_logging_ok:
  assumes "check_level lv = Inr n"
    and "mkdir e (case logs_dir qc of None \<Rightarrow> ''./logs'' | Some d \<Rightarrow> d) = None"
    and "\<And>f x. open_append e f = Some x \<Longrightarrow> is_oserror x"
  shows "fst (normal_logging t e qc lv s) = Inr ()"
  using assms(1,2) add_file_handler_ok [of e _ t, OF assms(3)]
  by (simp add: normal_logging_def root_setLevel_def Let_def path_mkdir_def)

lemma logs_dir_reconciled: "logs_dir (reconciled t c) = logs_dir c"
  by (simp add: reconciled_def)

lemma custom_reconciled_lacking:
  "lacks_section t (custom c) \<Longrightarrow> section_of t (custom (reconciled t c)) = PDict (model_dump t)"
  by (simp add: reconciled_def ensure_section_lacking)

lemma default_level_resolves:
  "t = quackmetadata \<or> t = quacktool \<Longrightarrow>
   resolve_log_level e (log_level_name (PDict (model_dump t))) = Inr (PInt 20)"
  by (auto simp: quackmetadata_def quacktool_def dict_get_def logging_module_def)

lemma initialize_config_ok:
  assumes l: "load_config e p = Inr c"
    and lv: "resolve_log_level e (log_level_name (section_of t (custom (reconciled t c)))) = Inr lv"
    and ck: "check_level lv = Inr n"
    and mk: "\<And>d. mkdir e d = None"
    and op: "\<And>f x. open_append e f = Some x \<Longrightarrow> is_oserror x"
  shows "fst (initialize_config t e p s) = Inr (length (objects s))"
  unfolding initialize_config_fst [OF l] lv
  using test_logging_ok [OF ck mk] normal_logging_ok [OF ck mk op]
  by simp

lemma get_tool_config_fresh:
  assumes "config_ref s = None" and "initialize_config t e None s = (Inr r, s1)"
  shows "get_tool_config t e s =
           (Inr (section_of t (custom (deref s1 r))), s1\<lparr>config_ref := Some r\<rparr>)"
  using assms by (simp add: get_tool_config_def get_config_def deref_def)

lemma initialized_object:
  assumes "initialize_config t e p s = (Inr r, s1)" and "load_config e p = Inr c"
  shows "r < length (objects s1) \<and> deref s1 r = reconciled t c"
proof -
  from initialize_config_objects [OF assms(2), of t s] assms(1)
  have "objects s1 = objects s @ [reconciled t c]" by simp
  moreover have "r = length (objects s)" by (rule initialize_config_ref [OF assms(1)])
  ultimately show ?thesis by (simp add: deref_def)
qed

lemma ensure_section_stores:
  "lacks_section t c \<Longrightarrow> fst (ensure_section t c) = store_section t c (PDict (model_dump t))"
  by (cases c) (simp_all add: ensure_section_def lacks_section_def store_section_def Let_def)

text \<open>
  Whatever happens to logging afterwards, \<open>initialize_config\<close> has stored the defaults
  of the settings model as the tool's section of the object it loaded, by key on a
  mapping and by attribute on an object, when the loaded \<open>custom\<close> region lacked the
  entry.
\<close>

lemma section_created_on_load:
  assumes "load_config e p = Inr c" and "lacks_section t (custom c)"
  shows "custom (deref (snd (initialize_config t e p s)) (length (objects s)))
           = store_section t (custom c) (PDict (model_dump t)) \<and>
         section_of t (custom (deref (snd (initialize_config t e p s)) (length (objects s))))
           = PDict (model_dump t)"
proof -
  from initialize_config_objects [OF assms(1), of t s]
  have "deref (snd (initialize_config t e p s)) (length (objects s)) = reconciled t c"
    by (simp add: deref_def)
  then show ?thesis
    using assms(2) by (simp add: reconciled_def ensure_section_stores section_of_store)
qed

text \<open>
  When the logs directory can be created and opening the log file succeeds or fails with
  an \<open>OSError\<close>, the first \<open>get_tool_config\<close> on a fresh host configuration of either
  shape returns the defaults; the singleton then holds the new object, whose \<open>custom\<close>
  region has the defaults stored under the tool's name, and a further
  \<open>get_tool_config\<close> reads the same from it in any environment.
\<close>

lemma fresh_section_created:
  assumes "config_ref s = None" and "load_config e None = Inr c"
    and "lacks_section t (custom c)"
    and "t = quackmetadata \<or> t = quacktool"
    and "\<And>d. mkdir e d = None"
    and "\<And>f x. open_append e f = Some x \<Longrightarrow> is_oserror x"
  shows "\<exists>s'. get_tool_config t e s = (Inr (PDict (model_dump t)), s') \<and>
           config_ref s' = Some (length (objects s)) \<and>
           custom (deref s' (length (objects s)))
             = store_section t (custom c) (PDict (model_dump t)) \<and>
           get_tool_config t e' s' = (Inr (PDict (model_dump t)), s') \<and>
           dict_get (model_dump t) ''log_level'' PNone = PStr ''INFO''"
proof -
  let ?r = "length (objects s)"
  have sec: "section_of t (custom (reconciled t c)) = PDict (model_dump t)"
    by (rule custom_reconciled_lacking [OF assms(3)])
  have "check_level (PInt 20) = Inr 20" by simp
  from initialize_config_ok [where t = t and s = s, OF assms(2) _ this assms(5,6)] sec
    default_level_resolves [OF assms(4)]
  have "fst (initialize_config t e None s) = Inr ?r" by simp
  then obtain s1 where i: "initialize_config t e None s = (Inr ?r, s1)"
    by (cases "initialize_config t e None s") simp
  let ?s' = "s1\<lparr>config_ref := Some ?r\<rparr>"
  have s1_eq: "snd (initialize_config t e None s) = s1"
    by (simp add: i)
  note both = section_created_on_load [OF assms(2,3), of s, unfolded s1_eq]
  from both have c1: "custom (deref s1 ?r) = store_section t (custom c) (PDict (model_dump t))"
    by (rule conjunct1)
  from both have s1: "section_of t (custom (deref s1 ?r)) = PDict (model_dump t)"
    by (rule conjunct2)
  from get_tool_config_fresh [OF assms(1) i] s1
  have g: "get_tool_config t e s = (Inr (PDict (model_dump t)), ?s')" by simp
  have r: "config_ref ?s' = Some ?r" by simp
  have c: "custom (deref ?s' ?r) = store_section t (custom c) (PDict (model_dump t))"
    using c1 by (simp add: deref_def)
  have g': "get_tool_config t e' ?s' = (Inr (PDict (model_dump t)), ?s')"
    using s1 by (simp add: get_tool_config_def get_config_def deref_def)
  have l: "dict_get (model_dump t) ''log_level'' PNone = PStr ''INFO''"
    using assms(4) by (auto simp: quackmetadata_def quacktool_def dict_get_def)
  from g r c g' l show ?thesis by blast
qed

lemma fresh_section_created_both_shapes:
  "fst (get_tool_config quackmetadata (working_env fresh_mapping_config) initial_state)
     = Inr (PDict (model_dump quackmetadata)) \<and>
   custom (deref (snd (get_tool_config quackmetadata (working_env fresh_mapping_config)
     initial_state)) 0) = MappingBacked [(''quackmetadata'', PDict (model_dump quackmetadata))] \<and>
   fst (get_tool_config quacktool (pytest_env fresh_object_config) initial_state)
     = Inr (PDict (model_dump quacktool)) \<and>
   custom (deref (snd (get_tool_config quacktool (pytest_env fresh_object_config)
     initial_state)) 0) = AttributeBacked [(''quacktool'', PDict (model_dump quacktool))]"
  by code_simp

text \<open>
  Claim C8, at an input where the code does otherwise. On a fresh host configuration
  whose \<open>custom\<close> region lacks the tool's entry, in a process whose singleton is unset
  and on a host where creating the logs directory is denied, the first
  \<open>get_tool_config\<close> does not return the defaults: the \<open>OSError\<close> of the unguarded
  directory creation at line 162 leaves \<open>initialize_config\<close>, \<open>get_config\<close> and
  \<open>get_tool_config\<close>, after the section has been created on an object that is then
  dropped.
\<close>

theorem fresh_config_first_read_raises:
  "lacks_section quackmetadata (custom fresh_mapping_config) \<and>
   config_ref initial_state = None \<and>
   fst (get_tool_config quackmetadata (mkdir_denied_env fresh_mapping_config) initial_state)
     = Inl (OSError PermissionDenied) \<and>
   config_ref (snd (get_tool_config quackmetadata (mkdir_denied_env fresh_mapping_config)
     initial_state)) = None"
  by code_simp

lemma update_tool_config_fresh:
  assumes "config_ref s = None" and "initialize_config t e None s = (Inr r, s1)"
  shows "update_tool_config t e P s =
     (Inr (), s1\<lparr>config_ref := Some r,
                 objects := (objects s1)[r := (deref s1 r)\<lparr>custom :=
                   store_section t (custom (deref s1 r))
                     (updated_config (section_of t (custom (deref s1 r))) P)\<rparr>]\<rparr>)"
  using assms
  by (simp add: update_tool_config_def get_tool_config_def get_config_def deref_def Let_def)

text \<open>
  Claim C10. With the singleton unset, \<open>update_tool_config\<close> runs the initialization
  first: whenever that initialization succeeds, the update succeeds, the singleton then
  holds the initialized object, a later \<open>get_config\<close> returns it, and its tool section
  is the section that initialization ensured with the update applied; when the loaded
  configuration lacked the section, that is the model's defaults overlaid with the
  update.
\<close>

theorem update_initializes_first:
  assumes "config_ref s = None" and "initialize_config t e None s = (Inr r, s1)"
  shows "\<exists>s2. update_tool_config t e P s = (Inr (), s2) \<and>
           get_config t e' s2 = (Inr r, s2) \<and>
           section_of t (custom (deref s2 r)) = updated_config (section_of t (custom (deref s1 r))) P \<and>
           (\<forall>c. load_config e None = Inr c \<and> lacks_section t (custom c) \<longrightarrow>
              section_of t (custom (deref s2 r)) = PDict (dict_update (model_dump t) P))"
proof -
  let ?sec = "section_of t (custom (deref s1 r))"
  let ?obj = "(deref s1 r)\<lparr>custom := store_section t (custom (deref s1 r)) (updated_config ?sec P)\<rparr>"
  let ?s2 = "s1\<lparr>config_ref := Some r, objects := (objects s1)[r := ?obj]\<rparr>"
  from initialize_config_loaded [OF assms(2)] obtain c0 where l: "load_config e None = Inr c0" ..
  from initialized_object [OF assms(2) l] have r: "r < length (objects s1)" and d: "deref s1 r = reconciled t c0"
    by simp_all
  have u: "update_tool_config t e P s = (Inr (), ?s2)"
    by (rule update_tool_config_fresh [OF assms])
  have g: "get_config t e' ?s2 = (Inr r, ?s2)"
    by (simp add: get_config_def)
  have o: "deref ?s2 r = ?obj"
    using r by (simp add: deref_def)
  have m: "section_of t (custom (deref ?s2 r)) = updated_config ?sec P"
    unfolding o by (simp add: section_of_store)
  have f: "section_of t (custom (deref ?s2 r)) = PDict (dict_update (model_dump t) P)"
    if "load_config e None = Inr c" and "lacks_section t (custom c)" for c
  proof -
    from that(1) l have "c = c0" by simp
    with that(2) d have "?sec = PDict (model_dump t)"
      by (simp add: custom_reconciled_lacking)
    with m show ?thesis by simp
  qed
  from u g m f show ?thesis by blast
qed

theorem update_initializes_first_witness:
  "config_ref initial_state = None \<and>
   fst (initialize_config quackmetadata (working_env fresh_mapping_config) None initial_state)
     = Inr 0 \<and>
   (\<exists>s2. update_tool_config quackmetadata (working_env fresh_mapping_config)
            [(''log_level'', PStr ''DEBUG''), (''colour'', PBool True)] initial_state = (Inr (), s2) \<and>
          get_config quackmetadata broken_loader_env s2 = (Inr 0, s2) \<and>
          section_of quackmetadata (custom (deref s2 0)) =
            PDict [(''default_prompt_template'', PStr ''generic''),
                   (''max_retries'', PInt 3),
                   (''output_format'', PStr ''json''),
                   (''temp_dir'', PStr ''./temp''),
                   (''output_dir'', PStr ''./output''),
                   (''log_level'', PStr ''DEBUG''),
                   (''colour'', PBool True)])"
proof -
  let ?e = "working_env fresh_mapping_config"
  let ?P = "[(''log_level'', PStr ''DEBUG''), (''colour'', PBool True)]"
  let ?s1 = "snd (initialize_config quackmetadata ?e None initial_state)"
  have h1: "config_ref initial_state = None"
    by (simp add: initial_state_def)
  have f: "fst (initialize_config quackmetadata ?e None initial_state) = Inr 0"
    by code_simp
  then have h2: "initialize_config quackmetadata ?e None initial_state = (Inr 0, ?s1)"
    by (simp add: prod_eq_iff)
  have l: "load_config ?e None = Inr fresh_mapping_config"
    by (simp add: working_env_def)
  have a: "lacks_section quackmetadata (custom fresh_mapping_config)"
    by (simp add: lacks_section_def fresh_mapping_config_def dict_contains_def)
  have m: "dict_update (model_dump quackmetadata) ?P =
             [(''default_prompt_template'', PStr ''generic''),
                   (''max_retries'', PInt 3),
                   (''output_format'', PStr ''json''),
                   (''temp_dir'', PStr ''./temp''),
                   (''output_dir'', PStr ''./output''),
                   (''log_level'', PStr ''DEBUG''),
                   (''colour'', PBool True)]"
    by (simp add: quackmetadata_def)
  from update_initializes_first [OF h1 h2, of ?P broken_loader_env] obtain s2 where
    u: "update_tool_config quackmetadata ?e ?P initial_state = (Inr (), s2)"
    and g: "get_config quackmetadata broken_loader_env s2 = (Inr 0, s2)"
    and d: "\<forall>c. load_config ?e None = Inr c \<and> lacks_section quackmetadata (custom c) \<longrightarrow>
              section_of quackmetadata (custom (deref s2 0)) =
                PDict (dict_update (model_dump quackmetadata) ?P)"
    by blast
  from d l a have "section_of quackmetadata (custom (deref s2 0)) =
                PDict (dict_update (model_dump quackmetadata) ?P)"
    by blast
  with u g h1 f show ?thesis
    unfolding m by blast
qed

section \<open>The loops that detach and close handlers\<close>

lemma kind_close [simp]: "kind (close h) = kind h"
  by (simp add: close_def)

lemma kind_of_close_handler [simp]: "kind_of (close_handler h s) = kind_of s"
  by (auto simp: kind_of_def close_handler_def fun_eq_iff nth_list_update)

lemma kind_of_removeHandler [simp]: "kind_of (removeHandler h s) = kind_of s"
  by (simp add: kind_of_def removeHandler_def fun_eq_iff)

lemma remove_and_close_all_sweep: "remove_and_close_all hs s = sweep (\<lambda>_. True) hs s"
  by (induction hs arbitrary: s) simp_all

lemma remove_file_handlers_sweep':
  "kind_of s = k \<Longrightarrow> remove_file_handlers hs s = sweep (\<lambda>h. k h = FileHandler) hs s"
  by (induction hs arbitrary: s) auto

lemma remove_file_handlers_sweep:
  "remove_file_handlers hs s = sweep (\<lambda>h. kind_of s h = FileHandler) hs s"
  by (rule remove_file_handlers_sweep' [OF refl])

lemma sweep_file_handlers [simp]: "file_handlers (sweep P hs s) = file_handlers s"
  by (induction hs arbitrary: s) (simp_all add: close_handler_def removeHandler_def)

lemma sweep_length [simp]: "length (handlers (sweep P hs s)) = length (handlers s)"
  by (induction hs arbitrary: s) (simp_all add: close_handler_def removeHandler_def)

lemma sweep_kind_of [simp]: "kind_of (sweep P hs s) = kind_of s"
  by (induction hs arbitrary: s) simp_all

lemma sweep_root:
  "distinct (root_handlers s) \<Longrightarrow>
   root_handlers (sweep P hs s) = filter (\<lambda>h. \<not> (h \<in> set hs \<and> P h)) (root_handlers s)"
proof (induction hs arbitrary: s)
  case Nil
  then show ?case by simp
next
  case (Cons h hs)
  show ?case
  proof (cases "P h")
    case True
    let ?s = "close_handler h (removeHandler h s)"
    have r: "root_handlers ?s = filter (\<lambda>x. x \<noteq> h) (root_handlers s)"
      using Cons.prems
      by (simp add: close_handler_def removeHandler_def distinct_remove1_removeAll
          removeAll_filter_not_eq) metis
    then have "distinct (root_handlers ?s)" using Cons.prems by simp
    from Cons.IH [OF this] r True show ?thesis
      by (auto intro: filter_cong)
  next
    case False
    with Cons show ?thesis by (auto intro: filter_cong)
  qed
qed

lemma sweep_nth:
  "distinct hs \<Longrightarrow> i < length (handlers s) \<Longrightarrow>
   handlers (sweep P hs s) ! i =
     (if i \<in> set hs \<and> P i then close (handlers s ! i) else handlers s ! i)"
proof (induction hs arbitrary: s)
  case Nil
  then show ?case by simp
next
  case (Cons h hs)
  let ?s = "if P h then close_handler h (removeHandler h s) else s"
  have len: "length (handlers ?s) = length (handlers s)"
    by (simp add: close_handler_def removeHandler_def)
  have nth: "handlers ?s ! i = (if i = h \<and> P h then close (handlers s ! i) else handlers s ! i)"
    using Cons.prems by (auto simp: close_handler_def removeHandler_def)
  from Cons.prems have d: "distinct hs" and nin: "h \<notin> set hs" by simp_all
  from Cons.IH [OF d, of ?s] Cons.prems(2) len
  have "handlers (sweep P hs ?s) ! i =
          (if i \<in> set hs \<and> P i then close (handlers ?s ! i) else handlers ?s ! i)"
    by simp
  with nth nin show ?case by auto
qed

lemma sweep_other [simp]:
  "objects (sweep P hs s) = objects s" "config_ref (sweep P hs s) = config_ref s"
  "root_level (sweep P hs s) = root_level s" "dirs_made (sweep P hs s) = dirs_made s"
  by (induction hs arbitrary: s) (simp_all add: close_handler_def removeHandler_def)

section \<open>The invariant of the logging state\<close>

lemma logging_inv_cong:
  "handlers s' = handlers s \<Longrightarrow> root_handlers s' = root_handlers s \<Longrightarrow>
   file_handlers s' = file_handlers s \<Longrightarrow> logging_inv s' = logging_inv s"
proof -
  assume h: "handlers s' = handlers s" and r: "root_handlers s' = root_handlers s"
    and f: "file_handlers s' = file_handlers s"
  have e: "entry_ok s' = entry_ok s"
    by (simp add: entry_ok_def fun_eq_iff h r)
  have k: "kind_of s' = kind_of s"
    by (simp add: kind_of_def fun_eq_iff h)
  show ?thesis
    by (simp add: logging_inv_def console_handlers_def attached_file_handlers_def e k h r f)
qed

lemma length_filter_filter_le:
  "length (filter P (filter Q xs)) \<le> length (filter P xs)"
  by (induction xs) auto

lemma logging_inv_sweep:
  assumes "logging_inv s"
  shows "logging_inv (sweep P (root_handlers s) s)"
proof -
  let ?s = "sweep P (root_handlers s) s"
  from assms have d: "distinct (root_handlers s)"
    and v: "list_all (\<lambda>h. h < length (handlers s)) (root_handlers s)"
    and df: "distinct (file_handlers s)"
    and ok: "list_all (entry_ok s) (file_handlers s)"
    and c: "length (console_handlers s) \<le> 1"
    and f: "length (attached_file_handlers s) \<le> 1"
    by (simp_all add: logging_inv_def)
  have root: "root_handlers ?s = filter (\<lambda>h. \<not> P h) (root_handlers s)"
    using sweep_root [OF d, of P "root_handlers s"] by (auto intro: filter_cong)
  have nth: "handlers ?s ! i =
      (if i \<in> set (root_handlers s) \<and> P i then close (handlers s ! i) else handlers s ! i)"
    if "i < length (handlers s)" for i
    by (rule sweep_nth [OF d that])
  have 1: "distinct (root_handlers ?s)"
    using d by (simp add: root)
  have 2: "list_all (\<lambda>h. h < length (handlers ?s)) (root_handlers ?s)"
    using v by (simp add: root list_all_iff)
  have 3: "distinct (file_handlers ?s)"
    using df by simp
  have 4: "list_all (entry_ok ?s) (file_handlers ?s)"
    unfolding list_all_iff
  proof
    fix h assume "h \<in> set (file_handlers ?s)"
    then have "entry_ok s h" using ok by (simp add: list_all_iff)
    then show "entry_ok ?s h"
      by (auto simp: entry_ok_def root nth close_def)
  qed
  have 5: "length (console_handlers ?s) \<le> 1"
    using c length_filter_filter_le [of "\<lambda>h. kind_of s h = ConsoleHandler" "\<lambda>h. \<not> P h" "root_handlers s"]
    by (simp add: console_handlers_def root)
  have 6: "length (attached_file_handlers ?s) \<le> 1"
    using f length_filter_filter_le [of "\<lambda>h. kind_of s h = FileHandler" "\<lambda>h. \<not> P h" "root_handlers s"]
    by (simp add: attached_file_handlers_def root)
  from 1 2 3 4 5 6 show ?thesis by (simp add: logging_inv_def)
qed

lemma sweep_all_root:
  "distinct (root_handlers s) \<Longrightarrow> root_handlers (sweep (\<lambda>_. True) (root_handlers s) s) = []"
  by (simp add: sweep_root)

lemma sweep_files_attached:
  "distinct (root_handlers s) \<Longrightarrow>
   attached_file_handlers (sweep (\<lambda>h. kind_of s h = FileHandler) (root_handlers s) s) = []"
  by (simp add: sweep_root attached_file_handlers_def filter_empty_conv)

lemma sweep_console_handlers:
  "distinct (root_handlers s) \<Longrightarrow>
   console_handlers (sweep (\<lambda>h. kind_of s h = FileHandler) (root_handlers s) s)
     = console_handlers s"
  by (auto simp: sweep_root console_handlers_def intro: filter_cong)

lemma logging_inv_attach_new:
  assumes "logging_inv s"
    and "kind h = ConsoleHandler \<longrightarrow> console_handlers s = []"
    and "kind h = FileHandler \<longrightarrow> attached_file_handlers s = []"
  shows "logging_inv (attach_new h s)"
proof -
  let ?s = "attach_new h s"
  let ?n = "length (handlers s)"
  from assms(1) have d: "distinct (root_handlers s)"
    and v: "list_all (\<lambda>h. h < length (handlers s)) (root_handlers s)"
    and df: "distinct (file_handlers s)"
    and ok: "list_all (entry_ok s) (file_handlers s)"
    and c: "length (console_handlers s) \<le> 1"
    and f: "length (attached_file_handlers s) \<le> 1"
    by (simp_all add: logging_inv_def)
  have fresh: "?n \<notin> set (root_handlers s)"
    using v by (auto simp: list_all_iff)
  have k: "kind_of ?s x = kind_of s x" if "x < ?n" for x
    using that by (simp add: kind_of_def attach_new_def nth_append)
  have kn: "kind_of ?s ?n = kind h"
    by (simp add: kind_of_def attach_new_def)
  have flt: "filter (\<lambda>x. kind_of ?s x = K) (root_handlers s)
               = filter (\<lambda>x. kind_of s x = K) (root_handlers s)" for K
    using v k by (auto simp: list_all_iff intro: filter_cong)
  have 1: "distinct (root_handlers ?s)"
    using d fresh by (simp add: attach_new_def)
  have 2: "list_all (\<lambda>h. h < length (handlers ?s)) (root_handlers ?s)"
    using v by (auto simp: attach_new_def list_all_iff)
  have 3: "distinct (file_handlers ?s)"
    using df by (simp add: attach_new_def)
  have 4: "list_all (entry_ok ?s) (file_handlers ?s)"
    unfolding list_all_iff
  proof
    fix x assume "x \<in> set (file_handlers ?s)"
    then have "entry_ok s x" using ok by (simp add: list_all_iff attach_new_def)
    then show "entry_ok ?s x"
      by (auto simp: entry_ok_def attach_new_def nth_append)
  qed
  have 5: "length (console_handlers ?s) \<le> 1"
    using c assms(2) flt [of ConsoleHandler] kn
    by (auto simp: console_handlers_def attach_new_def)
  have 6: "length (attached_file_handlers ?s) \<le> 1"
    using f assms(3) flt [of FileHandler] kn
    by (auto simp: attached_file_handlers_def attach_new_def)
  from 1 2 3 4 5 6 show ?thesis by (simp add: logging_inv_def)
qed

lemma logging_inv_register:
  assumes "logging_inv s" and "attached_file_handlers s = []"
  shows "logging_inv ((attach_new (new_FileHandler f\<lparr>hlevel := n\<rparr>) s)
           \<lparr>file_handlers := file_handlers s @ [length (handlers s)]\<rparr>)"
proof -
  let ?h = "new_FileHandler f\<lparr>hlevel := n\<rparr>"
  let ?a = "attach_new ?h s"
  let ?s = "?a\<lparr>file_handlers := file_handlers s @ [length (handlers s)]\<rparr>"
  have kh: "kind ?h = FileHandler" by (simp add: new_FileHandler_def)
  from logging_inv_attach_new [of s ?h] assms kh have a: "logging_inv ?a" by simp
  from assms(1) have ok: "list_all (entry_ok s) (file_handlers s)"
    by (simp add: logging_inv_def)
  then have fresh: "length (handlers s) \<notin> set (file_handlers s)"
    by (auto simp: list_all_iff entry_ok_def)
  have new: "entry_ok ?s (length (handlers s))"
    by (simp add: entry_ok_def attach_new_def new_FileHandler_def)
  have eo: "entry_ok ?s = entry_ok ?a"
    by (simp add: entry_ok_def fun_eq_iff)
  have co: "console_handlers ?s = console_handlers ?a"
    "attached_file_handlers ?s = attached_file_handlers ?a"
    by (simp_all add: console_handlers_def attached_file_handlers_def kind_of_def)
  from a fresh new show ?thesis
    unfolding logging_inv_def co eo
    by (simp add: attach_new_def)
qed

lemma add_console_handler_eq:
  assumes "list_all (\<lambda>h. h < length (handlers s)) (root_handlers s)"
  shows "add_console_handler n s =
     (if console_handlers s = [] then attach_new (StreamHandler\<lparr>hlevel := n\<rparr>) s else s)"
proof -
  have fresh: "length (handlers s) \<notin> set (root_handlers s)"
    using assms by (auto simp: list_all_iff)
  have ex: "list_ex (\<lambda>h. kind_of s h = ConsoleHandler) (root_handlers s)
              \<longleftrightarrow> console_handlers s \<noteq> []"
    by (simp add: console_handlers_def list_ex_iff filter_empty_conv)
  show ?thesis
    unfolding add_console_handler_def Let_def ex
    using fresh
    by (simp add: new_handler_def handler_setLevel_def addHandler_def attach_new_def)
qed

lemma add_file_handler_snd:
  assumes "list_all (\<lambda>h. h < length (handlers s)) (root_handlers s)"
  shows "snd (add_file_handler t e dir n s) =
     (case open_append e (dir @ ''/'' @ tool_name t @ ''.log'') of
        Some x \<Rightarrow> s
      | None \<Rightarrow>
          (attach_new (new_FileHandler (dir @ ''/'' @ tool_name t @ ''.log'')\<lparr>hlevel := n\<rparr>) s)
            \<lparr>file_handlers := file_handlers s @ [length (handlers s)]\<rparr>)"
proof -
  have fresh: "length (handlers s) \<notin> set (root_handlers s)"
    using assms by (auto simp: list_all_iff)
  show ?thesis
    unfolding add_file_handler_def Let_def
    using fresh
    by (simp add: new_handler_def handler_setLevel_def addHandler_def attach_new_def
        split: option.splits)
qed

lemma basicConfig_snd:
  assumes "distinct (root_handlers s)"
  shows "snd (basicConfig lv s) =
     (case check_level lv of
        Inl x \<Rightarrow> attach_new StreamHandler (sweep (\<lambda>_. True) (root_handlers s) s)
      | Inr n \<Rightarrow> (attach_new StreamHandler (sweep (\<lambda>_. True) (root_handlers s) s))
                   \<lparr>root_level := n\<rparr>)"
proof -
  let ?s1 = "sweep (\<lambda>_. True) (root_handlers s) s"
  have r: "root_handlers ?s1 = []"
    by (rule sweep_all_root [OF assms])
  show ?thesis
    unfolding basicConfig_def Let_def remove_and_close_all_sweep
    using r
    by (simp add: new_handler_def addHandler_def attach_new_def root_setLevel_def
        split: sum.splits)
qed

lemma logging_inv_root_level: "logging_inv (s\<lparr>root_level := n\<rparr>) = logging_inv s"
  by (rule logging_inv_cong) simp_all

lemma logging_inv_dirs_made: "logging_inv (s\<lparr>dirs_made := d\<rparr>) = logging_inv s"
  by (rule logging_inv_cong) simp_all

lemma logging_inv_path_mkdir: "logging_inv (snd (path_mkdir e d s)) = logging_inv s"
  by (simp add: path_mkdir_def logging_inv_dirs_made split: option.splits)

lemma logging_inv_basicConfig:
  assumes "logging_inv s"
  shows "logging_inv (snd (basicConfig lv s))"
proof -
  let ?s1 = "sweep (\<lambda>_. True) (root_handlers s) s"
  from assms have d: "distinct (root_handlers s)" by (simp add: logging_inv_def)
  have 1: "logging_inv ?s1" by (rule logging_inv_sweep [OF assms])
  have r: "root_handlers ?s1 = []" by (rule sweep_all_root [OF d])
  have "logging_inv (attach_new StreamHandler ?s1)"
    by (rule logging_inv_attach_new [OF 1])
       (simp_all add: console_handlers_def attached_file_handlers_def r)
  then show ?thesis
    unfolding basicConfig_snd [OF d]
    by (simp add: logging_inv_root_level split: sum.splits)
qed

lemma logging_inv_test_logging:
  assumes "logging_inv s"
  shows "logging_inv (snd (test_logging e lv s))"
proof (cases "basicConfig lv s")
  case (Pair r s1)
  with logging_inv_basicConfig [OF assms, of lv] have "logging_inv s1" by simp
  with Pair show ?thesis
    by (cases r) (simp_all add: test_logging_def logging_inv_path_mkdir)
qed

lemma logging_inv_add_console_handler:
  assumes "logging_inv s"
  shows "logging_inv (add_console_handler n s)"
proof -
  from assms have v: "list_all (\<lambda>h. h < length (handlers s)) (root_handlers s)"
    by (simp add: logging_inv_def)
  show ?thesis
    unfolding add_console_handler_eq [OF v]
    using assms logging_inv_attach_new [OF assms, of "StreamHandler\<lparr>hlevel := n\<rparr>"]
    by (simp add: StreamHandler_def)
qed

lemma logging_inv_add_file_handler:
  assumes "logging_inv s" and "attached_file_handlers s = []"
  shows "logging_inv (snd (add_file_handler t e dir n s))"
proof -
  from assms have v: "list_all (\<lambda>h. h < length (handlers s)) (root_handlers s)"
    by (simp add: logging_inv_def)
  show ?thesis
    unfolding add_file_handler_snd [OF v]
    using assms logging_inv_register [OF assms]
    by (simp split: option.splits)
qed

lemma attached_path_mkdir:
  "attached_file_handlers (snd (path_mkdir e d s)) = attached_file_handlers s"
  by (simp add: path_mkdir_def attached_file_handlers_def kind_of_def split: option.splits)

lemma normal_logging_snd:
  "snd (normal_logging t e qc lv s) =
     (case check_level lv of
        Inl x \<Rightarrow> s
      | Inr n \<Rightarrow>
          (let s2 = add_console_handler n (s\<lparr>root_level := n\<rparr>);
               s3 = remove_file_handlers (root_handlers s2) s2;
               dir = (case logs_dir qc of None \<Rightarrow> ''./logs'' | Some d \<Rightarrow> d)
           in case mkdir e dir of
                Some x \<Rightarrow> s3
              | None \<Rightarrow> snd (add_file_handler t e dir n (s3\<lparr>dirs_made := dirs_made s3 @ [dir]\<rparr>))))"
  by (simp add: normal_logging_def root_setLevel_def Let_def path_mkdir_def
      split: sum.splits option.splits prod.splits)

lemma logging_inv_normal_logging:
  assumes "logging_inv s"
  shows "logging_inv (snd (normal_logging t e qc lv s))"
proof (cases "check_level lv")
  case (Inl x)
  with assms show ?thesis by (simp add: normal_logging_snd)
next
  case (Inr n)
  let ?s2 = "add_console_handler n (s\<lparr>root_level := n\<rparr>)"
  let ?s3 = "remove_file_handlers (root_handlers ?s2) ?s2"
  let ?dir = "case logs_dir qc of None \<Rightarrow> ''./logs'' | Some d \<Rightarrow> d"
  let ?s4 = "?s3\<lparr>dirs_made := dirs_made ?s3 @ [?dir]\<rparr>"
  have 2: "logging_inv ?s2"
    using assms by (simp add: logging_inv_add_console_handler logging_inv_root_level)
  then have d2: "distinct (root_handlers ?s2)" by (simp add: logging_inv_def)
  have 3: "logging_inv ?s3"
    unfolding remove_file_handlers_sweep by (rule logging_inv_sweep [OF 2])
  have a3: "attached_file_handlers ?s3 = []"
    unfolding remove_file_handlers_sweep by (rule sweep_files_attached [OF d2])
  have 4: "logging_inv ?s4"
    using 3 by (simp add: logging_inv_dirs_made)
  have "attached_file_handlers ?s4 = attached_file_handlers ?s3"
    by (simp add: attached_file_handlers_def kind_of_def)
  with a3 have a4: "attached_file_handlers ?s4 = []"
    by simp
  from logging_inv_add_file_handler [OF 4 a4] 3 Inr show ?thesis
    by (simp add: normal_logging_snd Let_def split: option.splits)
qed

lemma logging_inv_initialize_config:
  assumes "logging_inv s"
  shows "logging_inv (snd (initialize_config t e p s))"
proof (cases "load_config e p")
  case (Inl x)
  then show ?thesis
    using assms logging_inv_cong [of "s\<lparr>config_ref := None\<rparr>" s]
    by (simp add: initialize_config_loader_error)
next
  case (Inr c)
  let ?s1 = "s\<lparr>config_ref := None, objects := objects s @ [reconciled t c]\<rparr>"
  have 1: "logging_inv ?s1"
    using assms logging_inv_cong [of ?s1 s] by simp
  show ?thesis
    unfolding initialize_config_snd [OF Inr]
    using 1 logging_inv_test_logging [OF 1] logging_inv_normal_logging [OF 1]
    by (simp split: sum.splits)
qed

section \<open>Runs of the process\<close>

lemma file_handlers_add_console_handler [simp]:
  "file_handlers (add_console_handler n s) = file_handlers s"
  by (simp add: add_console_handler_def Let_def new_handler_def handler_setLevel_def
      addHandler_def)

lemma file_handlers_remove_file_handlers [simp]:
  "file_handlers (remove_file_handlers hs s) = file_handlers s"
  by (simp add: remove_file_handlers_sweep)

lemma file_handlers_basicConfig [simp]:
  "file_handlers (snd (basicConfig lv s)) = file_handlers s"
  by (simp add: basicConfig_def Let_def remove_and_close_all_sweep new_handler_def
      addHandler_def root_setLevel_def split: sum.splits)

lemma file_handlers_path_mkdir [simp]:
  "file_handlers (snd (path_mkdir e d s)) = file_handlers s"
  by (simp add: path_mkdir_def split: option.splits)

lemma file_handlers_test_logging [simp]:
  "file_handlers (snd (test_logging e lv s)) = file_handlers s"
proof (cases "basicConfig lv s")
  case (Pair r s1)
  with file_handlers_basicConfig [of lv s] have "file_handlers s1 = file_handlers s" by simp
  with Pair show ?thesis
    by (cases r) (simp_all add: test_logging_def)
qed

lemma file_handlers_add_file_handler:
  "file_handlers (snd (add_file_handler t e dir n s)) =
     file_handlers s @
       (case open_append e (dir @ ''/'' @ tool_name t @ ''.log'') of
          None \<Rightarrow> [length (handlers s)] | Some x \<Rightarrow> [])"
  by (simp add: add_file_handler_def Let_def new_handler_def handler_setLevel_def
      addHandler_def split: option.splits)

lemma file_handlers_normal_logging:
  "\<exists>xs. file_handlers (snd (normal_logging t e qc lv s)) = file_handlers s @ xs \<and>
        length xs \<le> 1"
  by (simp add: normal_logging_snd Let_def file_handlers_add_file_handler
      split: sum.splits option.splits)

lemma file_handlers_initialize_config:
  "\<exists>xs. file_handlers (snd (initialize_config t e p s)) = file_handlers s @ xs \<and>
        length xs \<le> 1"
proof (cases "load_config e p")
  case (Inl x)
  then show ?thesis by (simp add: initialize_config_loader_error)
next
  case (Inr c)
  let ?s1 = "s\<lparr>config_ref := None, objects := objects s @ [reconciled t c]\<rparr>"
  show ?thesis
    unfolding initialize_config_snd [OF Inr]
    using file_handlers_normal_logging [where t = t and e = e and qc = "reconciled t c" and s = ?s1]
    by (simp split: sum.splits)
qed

lemma get_config_snd:
  "snd (get_config t e s) =
     (case config_ref s of
        Some r \<Rightarrow> s
      | None \<Rightarrow>
          (case fst (initialize_config t e None s) of
             Inl x \<Rightarrow> snd (initialize_config t e None s)
           | Inr r \<Rightarrow> (snd (initialize_config t e None s))\<lparr>config_ref := Some r\<rparr>))"
  by (simp add: get_config_def split: option.splits prod.splits sum.splits)

lemma get_config_ref:
  "get_config t e s = (Inr r, s1) \<Longrightarrow> config_ref s1 = Some r"
  by (auto simp: get_config_def split: option.splits prod.splits sum.splits)

lemma get_tool_config_snd: "snd (get_tool_config t e s) = snd (get_config t e s)"
  by (simp add: get_tool_config_def split: prod.splits sum.splits)

lemma update_tool_config_snd:
  "same_logging (snd (get_config t e s)) (snd (update_tool_config t e P s))"
proof (cases "get_config t e s")
  case (Pair res s1)
  show ?thesis
  proof (cases res)
    case (Inl x)
    with Pair show ?thesis by (simp add: update_tool_config_def same_logging_def)
  next
    case (Inr r)
    with Pair have "config_ref s1 = Some r" by (simp add: get_config_ref)
    then have "get_tool_config t e s1 = (Inr (section_of t (custom (deref s1 r))), s1)"
      by (simp add: get_tool_config_def get_config_def)
    with Pair Inr show ?thesis
      by (simp add: update_tool_config_def same_logging_def Let_def)
  qed
qed

lemma same_logging_get_config:
  "same_logging (case config_ref s of Some r \<Rightarrow> s | None \<Rightarrow> snd (initialize_config t e None s))
     (snd (get_config t e s))"
  by (simp add: get_config_snd same_logging_def split: option.splits sum.splits)

lemma same_logging_inv: "same_logging s s' \<Longrightarrow> logging_inv s' = logging_inv s"
  by (rule logging_inv_cong) (simp_all add: same_logging_def)

lemma logging_inv_get_config:
  assumes "logging_inv s"
  shows "logging_inv (snd (get_config t e s))"
  unfolding same_logging_inv [OF same_logging_get_config]
  using assms logging_inv_initialize_config [OF assms]
  by (simp split: option.splits)

lemma file_handlers_get_config:
  "\<exists>xs. file_handlers (snd (get_config t e s)) = file_handlers s @ xs \<and> length xs \<le> 1"
  using same_logging_get_config [where t = t and e = e and s = s]
    file_handlers_initialize_config [where t = t and e = e and p = None and s = s]
  by (auto simp: same_logging_def split: option.splits)

lemma logging_inv_perform:
  assumes "logging_inv s"
  shows "logging_inv (perform t e c s)"
proof (cases c)
  case (Initialize p)
  then show ?thesis by (simp add: logging_inv_initialize_config [OF assms])
next
  case GetConfig
  then show ?thesis by (simp add: logging_inv_get_config [OF assms])
next
  case GetToolConfig
  then show ?thesis by (simp add: get_tool_config_snd logging_inv_get_config [OF assms])
next
  case (UpdateToolConfig P)
  then show ?thesis
    by (simp add: same_logging_inv [OF update_tool_config_snd] logging_inv_get_config [OF assms])
qed

lemma file_handlers_perform:
  "\<exists>xs. file_handlers (perform t e c s) = file_handlers s @ xs \<and> length xs \<le> 1"
proof (cases c)
  case (Initialize p)
  then show ?thesis
    using file_handlers_initialize_config [where t = t and e = e and p = p and s = s] by simp
next
  case GetConfig
  then show ?thesis
    using file_handlers_get_config [where t = t and e = e and s = s] by simp
next
  case GetToolConfig
  then show ?thesis
    using file_handlers_get_config [where t = t and e = e and s = s]
    by (simp add: get_tool_config_snd)
next
  case (UpdateToolConfig P)
  then show ?thesis
    using update_tool_config_snd [where t = t and e = e and s = s and P = P]
      file_handlers_get_config [where t = t and e = e and s = s]
    by (simp add: same_logging_def)
qed

lemma logging_inv_run: "logging_inv s \<Longrightarrow> logging_inv (run t cs s)"
proof (induction cs arbitrary: s)
  case Nil
  then show ?case by simp
next
  case (Cons a cs)
  obtain e c where a: "a = (e, c)" by (cases a)
  from Cons.prems have "logging_inv (perform t e c s)" by (rule logging_inv_perform)
  from Cons.IH [OF this] a show ?case by simp
qed

lemma file_handlers_run:
  "\<exists>xs. file_handlers (run t cs s) = file_handlers s @ xs \<and> length xs \<le> length cs"
proof (induction cs arbitrary: s)
  case Nil
  then show ?case by simp
next
  case (Cons a cs)
  obtain e c where a: "a = (e, c)" by (cases a)
  from file_handlers_perform [of t e c s] obtain xs where
    xs: "file_handlers (perform t e c s) = file_handlers s @ xs" "length xs \<le> 1" by blast
  from Cons.IH [of "perform t e c s"] obtain ys where
    ys: "file_handlers (run t cs (perform t e c s)) = file_handlers (perform t e c s) @ ys"
      "length ys \<le> length cs" by blast
  from xs ys have "file_handlers (run t (a # cs) s) = file_handlers s @ (xs @ ys)"
    "length (xs @ ys) \<le> length (a # cs)"
    by (simp_all add: a)
  then show ?case by blast
qed

lemma run_append: "run t (cs @ cs') s = run t cs' (run t cs s)"
  by (induction cs arbitrary: s) auto

lemma logging_inv_initial: "logging_inv initial_state"
  by (simp add: logging_inv_def initial_state_def console_handlers_def
      attached_file_handlers_def)

section \<open>Handlers over the life of the process\<close>

lemma close_each_length [simp]: "length (handlers (close_each hs s)) = length (handlers s)"
  by (induction hs arbitrary: s) (simp_all add: close_handler_def)

lemma close_each_nth:
  "distinct hs \<Longrightarrow> i < length (handlers s) \<Longrightarrow>
   handlers (close_each hs s) ! i =
     (if i \<in> set hs then close (handlers s ! i) else handlers s ! i)"
proof (induction hs arbitrary: s)
  case Nil
  then show ?case by simp
next
  case (Cons h hs)
  let ?s = "close_handler h s"
  have len: "length (handlers ?s) = length (handlers s)"
    by (simp add: close_handler_def)
  have nth: "handlers ?s ! i = (if i = h then close (handlers s ! i) else handlers s ! i)"
    using Cons.prems by (auto simp: close_handler_def)
  from Cons.prems have d: "distinct hs" and nin: "h \<notin> set hs" by simp_all
  from Cons.IH [OF d, of ?s] Cons.prems(2) len
  have "handlers (close_each hs ?s) ! i =
          (if i \<in> set hs then close (handlers ?s ! i) else handlers ?s ! i)"
    by simp
  with nth nin show ?case by auto
qed

lemma open_entries_attached:
  assumes "logging_inv s"
  shows "length (open_entries s) \<le> 1"
proof -
  from assms have df: "distinct (file_handlers s)"
    and ok: "list_all (entry_ok s) (file_handlers s)"
    and f: "length (attached_file_handlers s) \<le> 1"
    and d: "distinct (root_handlers s)"
    by (simp_all add: logging_inv_def)
  have sub: "set (open_entries s) \<subseteq> set (attached_file_handlers s)"
    using ok
    by (auto simp: open_entries_def attached_file_handlers_def list_all_iff entry_ok_def
        is_closed_def kind_of_def split: if_splits)
  have "distinct (open_entries s)"
    using df by (simp add: open_entries_def)
  then have "length (open_entries s) = card (set (open_entries s))"
    by (simp add: distinct_card)
  also have "\<dots> \<le> card (set (attached_file_handlers s))"
    by (rule card_mono [OF _ sub]) simp
  also have "\<dots> \<le> length (attached_file_handlers s)"
    by (rule card_length)
  finally show ?thesis using f by simp
qed

lemma detached_entries_closed:
  assumes "logging_inv s"
  shows "list_all (\<lambda>h. h \<in> set (attached_file_handlers s) \<or> is_closed s h) (file_handlers s)"
  using assms
  by (auto simp: logging_inv_def list_all_iff entry_ok_def attached_file_handlers_def
      is_closed_def kind_of_def split: if_splits)

text \<open>
  Claim C6. After any number \<open>N\<close> of successive \<open>initialize_config\<close> calls in normal
  operation, started in a fresh process and whatever each call meets in its environment,
  the root logger has at most one console handler and at most one file handler; every
  handler of the registry that is not the attached one has been closed, so at most one
  entry of the registry is open; and the registry has at most \<open>N\<close> entries, hence at
  most \<open>N\<close> closed ones beside the open one. As the statement holds for every list of
  calls, it holds after each call of a longer run.
\<close>

theorem no_handler_leak:
  assumes "list_all normal_initialize cs"
  shows "length (console_handlers (run t cs initial_state)) \<le> 1 \<and>
         length (attached_file_handlers (run t cs initial_state)) \<le> 1 \<and>
         list_all (\<lambda>h. h \<in> set (attached_file_handlers (run t cs initial_state)) \<or>
                        is_closed (run t cs initial_state) h)
           (file_handlers (run t cs initial_state)) \<and>
         length (open_entries (run t cs initial_state)) \<le> 1 \<and>
         length (closed_entries (run t cs initial_state)) \<le> length cs \<and>
         length (file_handlers (run t cs initial_state)) \<le> length cs"
proof -
  let ?s = "run t cs initial_state"
  have inv: "logging_inv ?s"
    by (rule logging_inv_run [OF logging_inv_initial])
  from file_handlers_run [of t cs initial_state]
  have len: "length (file_handlers ?s) \<le> length cs"
    by (auto simp: initial_state_def)
  have "length (closed_entries ?s) \<le> length (file_handlers ?s)"
    by (simp add: closed_entries_def)
  with len have cl: "length (closed_entries ?s) \<le> length cs" by simp
  from inv have "length (console_handlers ?s) \<le> 1" "length (attached_file_handlers ?s) \<le> 1"
    by (simp_all add: logging_inv_def)
  with detached_entries_closed [OF inv] open_entries_attached [OF inv] len cl
  show ?thesis by simp
qed

theorem no_handler_leak_witness:
  "list_all normal_initialize
     [(working_env fresh_mapping_config, Initialize None),
      (working_env fresh_mapping_config, Initialize None)] \<and>
   length (console_handlers restarted_twice) \<le> 1 \<and>
   length (attached_file_handlers restarted_twice) \<le> 1 \<and>
   list_all (\<lambda>h. h \<in> set (attached_file_handlers restarted_twice) \<or>
                  is_closed restarted_twice h)
     (file_handlers restarted_twice) \<and>
   length (open_entries restarted_twice) \<le> 1 \<and>
   length (closed_entries restarted_twice) \<le> 2 \<and>
   length (file_handlers restarted_twice) \<le> 2"
proof -
  let ?cs = "[(working_env fresh_mapping_config, Initialize None),
              (working_env fresh_mapping_config, Initialize None)]"
  have h: "list_all normal_initialize ?cs"
    by (simp add: working_env_def)
  have r: "run quackmetadata ?cs initial_state = restarted_twice"
    by (simp only: restarted_twice_def)
  from no_handler_leak [OF h, of quackmetadata] h show ?thesis
    unfolding r by simp
qed

text \<open>
  The registry only grows during a run: a handler that was appended at some point is
  still in it at every later point, up to the cleanup at exit.
\<close>

lemma registry_only_grows:
  "\<exists>xs. file_handlers (run t (cs @ cs') s) = file_handlers (run t cs s) @ xs"
  using file_handlers_run [of t cs' "run t cs s"] by (auto simp: run_append)

text \<open>
  Claim C7. Over any run of the public operations in a fresh process, followed by the
  cleanup registered for the exit: no handler is in the registry twice, and the file of
  every handler that was appended to the registry is closed exactly once. Before the
  cleanup the file has been closed once when a re-initialization closed the handler and
  not at all otherwise; after the cleanup every such handler is closed and its file has
  been closed once. So the file is closed either during a re-initialization or at the
  exit, never at both: the cleanup calls \<^verbatim>\<open>close()\<close> on a handler that is closed already,
  and that call finds no stream left to close.
\<close>

theorem registry_files_closed_once:
  "distinct (file_handlers (run t cs initial_state)) \<and>
   file_handlers (close_file_handlers (run t cs initial_state)) = [] \<and>
   list_all (\<lambda>h. h < length (handlers (close_file_handlers (run t cs initial_state))) \<and>
                  closed (handlers (close_file_handlers (run t cs initial_state)) ! h) \<and>
                  stream_closes (handlers (close_file_handlers (run t cs initial_state)) ! h) = 1 \<and>
                  stream_closes (handlers (run t cs initial_state) ! h) =
                    (if is_closed (run t cs initial_state) h then 1 else 0))
     (file_handlers (run t cs initial_state))"
proof -
  let ?s = "run t cs initial_state"
  let ?s' = "close_file_handlers ?s"
  have inv: "logging_inv ?s"
    by (rule logging_inv_run [OF logging_inv_initial])
  then have df: "distinct (file_handlers ?s)"
    and ok: "list_all (entry_ok ?s) (file_handlers ?s)"
    by (simp_all add: logging_inv_def)
  have h: "handlers ?s' = handlers (close_each (file_handlers ?s) ?s)"
    by (simp add: close_file_handlers_def)
  have e: "file_handlers ?s' = []"
    by (simp add: close_file_handlers_def)
  have "x < length (handlers ?s') \<and>
        closed (handlers ?s' ! x) \<and> stream_closes (handlers ?s' ! x) = 1 \<and>
        stream_closes (handlers ?s ! x) = (if is_closed ?s x then 1 else 0)"
    if x: "x \<in> set (file_handlers ?s)" for x
  proof -
    from ok x have eo: "entry_ok ?s x" by (simp add: list_all_iff)
    then have v: "x < length (handlers ?s)" by (simp add: entry_ok_def)
    then have v': "x < length (handlers ?s')" by (simp add: h)
    from close_each_nth [OF df v] x have "handlers ?s' ! x = close (handlers ?s ! x)"
      by (simp add: h)
    with eo v' show ?thesis
      by (auto simp: entry_ok_def close_def is_closed_def split: if_splits)
  qed
  with df e show ?thesis by (simp add: list_all_iff)
qed

theorem registry_files_closed_once_witness:
  "distinct (file_handlers restarted_twice) \<and>
   file_handlers restarted_twice = [1, 2] \<and>
   file_handlers (close_file_handlers restarted_twice) = [] \<and>
   list_all (\<lambda>h. h < length (handlers (close_file_handlers restarted_twice)) \<and>
                  closed (handlers (close_file_handlers restarted_twice) ! h) \<and>
                  stream_closes (handlers (close_file_handlers restarted_twice) ! h) = 1 \<and>
                  stream_closes (handlers restarted_twice ! h) =
                    (if is_closed restarted_twice h then 1 else 0))
     (file_handlers restarted_twice)"
proof -
  let ?cs = "[(working_env fresh_mapping_config, Initialize None),
              (working_env fresh_mapping_config, Initialize None)]"
  have r: "run quackmetadata ?cs initial_state = restarted_twice"
    by (simp only: restarted_twice_def)
  have f: "file_handlers restarted_twice = [1, 2]"
    by code_simp
  from registry_files_closed_once [of quackmetadata ?cs] f show ?thesis
    unfolding r by simp
qed

text \<open>
  In that run the handler of the first initialization was closed by the second one, the
  handler of the second initialization by the cleanup at exit.
\<close>

lemma restarted_twice_files:
  "is_closed restarted_twice 1 \<and> stream_closes (handlers restarted_twice ! 1) = 1 \<and>
   \<not> is_closed restarted_twice 2 \<and> stream_closes (handlers restarted_twice ! 2) = 0 \<and>
   stream_closes (handlers (close_file_handlers restarted_twice) ! 1) = 1 \<and>
   stream_closes (handlers (close_file_handlers restarted_twice) ! 2) = 1"
  by code_simp

end
